theory Spec2Isabelle
  imports Main "HOL-Library.Sublist" "HOL-Library.AList"
begin

section \<open>Survey CSV to DXF: a model of XML\_to\_DXF.py\<close>

text \<open>
  Python strings are modelled as \<open>string\<close>, one \<open>char\<close> per character, which covers the
  code points below 256; on these the class \<open>\d\<close> of the \<open>re\<close> module is the ten ASCII
  digits. Python integers are \<open>int\<close>. An exception is a value of the type \<open>error\<close>, and a
  function that can raise returns \<open>error + 'a\<close>. Lines written to the console by \<open>print\<close>
  are not part of any result and are left out.
\<close>

subsection \<open>The pattern of \<open>process_code\<close>\<close>

text \<open>
  \<open>pattern = r"([a-zA-Z]+[a-z_A-Z0-9]*[a-zA-Z])(\d+)?$"\<close>, applied with \<open>re.match\<close>.
  The matcher below is the backtracking search of the \<open>re\<close> module specialised to the
  constructs of this pattern: every quantifier is greedy and gives characters back one at a
  time, and the first complete match found is the one reported. A continuation receives the
  rest of the input.
\<close>

definition is_alpha :: "char \<Rightarrow> bool" where
  "is_alpha c = (c \<in> set ''abcdefghijklmnopqrstuvwxyzABCDEFGHIJKLMNOPQRSTUVWXYZ'')"

definition is_digit :: "char \<Rightarrow> bool" where
  "is_digit c = (c \<in> set ''0123456789'')"

text \<open>The class \<open>[a-z_A-Z0-9]\<close>.\<close>

definition is_word :: "char \<Rightarrow> bool" where
  "is_word c = (is_alpha c \<or> c = CHR ''_'' \<or> is_digit c)"

definition re_one :: "(char \<Rightarrow> bool) \<Rightarrow> (string \<Rightarrow> 'a option) \<Rightarrow> string \<Rightarrow> 'a option" where
  "re_one p k s = (case s of [] \<Rightarrow> None | c # cs \<Rightarrow> if p c then k cs else None)"

fun re_star :: "(char \<Rightarrow> bool) \<Rightarrow> (string \<Rightarrow> 'a option) \<Rightarrow> string \<Rightarrow> 'a option" where
  "re_star p k [] = k []"
| "re_star p k (c # cs) =
     (if p c then (case re_star p k cs of Some r \<Rightarrow> Some r | None \<Rightarrow> k (c # cs))
      else k (c # cs))"

definition re_plus :: "(char \<Rightarrow> bool) \<Rightarrow> (string \<Rightarrow> 'a option) \<Rightarrow> string \<Rightarrow> 'a option" where
  "re_plus p k = re_one p (re_star p k)"

text \<open>
  An optional capturing group around \<open>p+\<close>: the group is tried first and captures the
  characters it consumed; when the rest fails with it, the group is skipped and captures
  nothing (\<open>None\<close>, as \<open>match.group\<close> reports it).
\<close>

definition re_opt_group ::
  "(char \<Rightarrow> bool) \<Rightarrow> (string option \<Rightarrow> string \<Rightarrow> 'a option) \<Rightarrow> string \<Rightarrow> 'a option" where
  "re_opt_group p k s =
     (case re_plus p (\<lambda>r. k (Some (take (length s - length r) s)) r) s of
        Some x \<Rightarrow> Some x
      | None \<Rightarrow> k None s)"

text \<open>\<open>$\<close> without flags: the end of the string, or just before a newline that ends it.\<close>

definition re_end :: "string \<Rightarrow> bool" where
  "re_end s = (s = [] \<or> s = [CHR 0x0A])"

text \<open>The result is \<open>(match.group(1), match.group(2))\<close>, or \<open>None\<close> when there is no match.\<close>

definition re_match :: "string \<Rightarrow> (string \<times> string option) option" where
  "re_match s =
     re_plus is_alpha (re_star is_word (re_one is_alpha
       (\<lambda>r1. re_opt_group is_digit
          (\<lambda>g2 r2. if re_end r2 then Some (take (length s - length r1) s, g2) else None)
          r1))) s"

subsection \<open>\<open>process_code\<close>\<close>

datatype error = ValueError | TypeError | KeyError | IndexError | DXFError

definition digit_val :: "char \<Rightarrow> int" where
  "digit_val c = int (of_char c) - 48"

definition decimal :: "string \<Rightarrow> int" where
  "decimal ds = foldl (\<lambda>a c. 10 * a + digit_val c) 0 ds"

text \<open>
  \<open>int(s)\<close> on a string of digits. The file needs Python 3.12 (it nests double quotes in
  f-strings), where a conversion of more than 4300 digits raises \<open>ValueError\<close> unless the
  interpreter is started with another limit; leading zeros count.
\<close>

definition int_max_str_digits :: nat where
  "int_max_str_digits = 4300"

definition py_int :: "string \<Rightarrow> error + int" where
  "py_int ds = (if int_max_str_digits < length ds then Inl ValueError else Inr (decimal ds))"

datatype point_type = Line | Point | Unknown

text \<open>
  The two code tables are the key lists of the dictionaries built by \<open>get_codes\<close>; a key is
  \<open>None\<close> when a feature definition has no \<open>Code\<close> attribute. The differentiator that is
  returned is an integer or \<open>None\<close> (the value of a group that took no part in the match).
  \<open>int(differentiator)\<close> runs before either \<open>return\<close>, so its \<open>ValueError\<close> leaves the function
  whether or not the code is found.
\<close>

definition process_code ::
  "string \<Rightarrow> string option list \<Rightarrow> string option list
     \<Rightarrow> error + bool \<times> string \<times> int option \<times> point_type" where
  "process_code input_string line_codes_ref point_codes_ref =
     (case re_match input_string of
        None \<Rightarrow> Inr (False, ''sprl'', Some 1, Unknown)
      | Some (code, group2) \<Rightarrow>
          (let in_line = (Some code \<in> set line_codes_ref);
               in_point = (Some code \<in> set point_codes_ref);
               found = (in_line \<or> in_point);
               point_type = (if in_point then Point else if in_line then Line else Unknown)
           in case (case group2 of
                      Some ds \<Rightarrow> (case py_int ds of Inl e \<Rightarrow> Inl e | Inr n \<Rightarrow> Inr (Some n))
                    | None \<Rightarrow> Inr (if in_line then Some (- 1) else None)) of
                Inl e \<Rightarrow> Inl e
              | Inr differentiator \<Rightarrow>
                  if found then Inr (True, code, differentiator, point_type)
                  else Inr (False, ''sprl'', Some 1, point_type)))"

subsection \<open>The token grammar, stated on the shape of the string\<close>

text \<open>
  The base code that the pattern captures: at least two characters, a letter first and a
  letter last, letters, digits and underscores between them.
\<close>

definition base_code_shape :: "string \<Rightarrow> bool" where
  "base_code_shape b = (2 \<le> length b \<and> is_alpha (hd b) \<and> is_alpha (last b) \<and> list_all is_word b)"

text \<open>
  The strings the pattern accepts: a base code, a possibly empty run of digits, and at most
  one final newline.
\<close>

definition code_grammar :: "string \<Rightarrow> bool" where
  "code_grammar s =
     (\<exists>b ds nl. s = b @ ds @ nl \<and> base_code_shape b \<and> list_all is_digit ds
        \<and> (nl = [] \<or> nl = [CHR 0x0A]))"

text \<open>The two groups of a match, for a string split as above.\<close>

definition groups_of :: "string \<Rightarrow> string \<Rightarrow> string option \<Rightarrow> bool" where
  "groups_of s g1 g2 =
     (\<exists>a m b ds nl. s = a # m @ [b] @ ds @ nl \<and> is_alpha a \<and> list_all is_word m \<and> is_alpha b
        \<and> list_all is_digit ds \<and> (nl = [] \<or> nl = [CHR 0x0A])
        \<and> g1 = a # m @ [b] \<and> g2 = (if ds = [] then None else Some ds))"

text \<open>
  The grammar in the words of the specification, section 4.2: a run of letters, optionally
  followed by letters and digits ending in a letter, immediately followed by an optional run
  of digits at the very end.
\<close>

definition spec_grammar :: "string \<Rightarrow> bool" where
  "spec_grammar s =
     (\<exists>ls rest ds. s = ls @ rest @ ds \<and> ls \<noteq> [] \<and> list_all is_alpha ls
        \<and> (rest = [] \<or> (\<exists>r l. rest = r @ [l] \<and> list_all (\<lambda>c. is_alpha c \<or> is_digit c) r \<and> is_alpha l))
        \<and> list_all is_digit ds)"

text \<open>
  The tokens on which \<open>int\<close> does not raise: those that do not match, that match without a
  digit run, or whose digit run is within the limit.
\<close>

definition digits_within_limit :: "string \<Rightarrow> bool" where
  "digits_within_limit tok =
     (case re_match tok of
        Some (code, Some ds) \<Rightarrow> length ds \<le> int_max_str_digits
      | _ \<Rightarrow> True)"

subsection \<open>Dictionaries\<close>

text \<open>
  A Python \<open>dict\<close> keeps its keys in insertion order, so it is an association list with
  distinct keys: \<open>d[k]\<close> is \<open>map_of d k\<close>, \<open>d[k] = v\<close> is \<open>AList.update k v d\<close> (the value is
  replaced in place, a new key goes to the end), and \<open>d.setdefault(k, v)\<close> adds \<open>(k, v)\<close>
  only when \<open>k\<close> is not a key yet.
\<close>

definition setdefault :: "'k \<Rightarrow> 'v \<Rightarrow> ('k \<times> 'v) list \<Rightarrow> ('k \<times> 'v) list" where
  "setdefault k v d = (if k \<in> fst ` set d then d else d @ [(k, v)])"

text \<open>A \<open>for\<close> loop whose body can raise: the first exception ends the loop.\<close>

fun try_fold :: "('a \<Rightarrow> 's \<Rightarrow> error + 's) \<Rightarrow> 'a list \<Rightarrow> 's \<Rightarrow> error + 's" where
  "try_fold f [] s = Inr s"
| "try_fold f (x # xs) s = (case f x s of Inl e \<Rightarrow> Inl e | Inr s1 \<Rightarrow> try_fold f xs s1)"

subsection \<open>\<open>get_survey\<close>\<close>

text \<open>\<open>str\<close> of an integer, and the text that \<open>f"{sequence}"\<close> gives for a differentiator.\<close>

function str_nat :: "nat \<Rightarrow> string" where
  "str_nat n = (if n < 10 then [char_of (48 + n)] else str_nat (n div 10) @ [char_of (48 + n mod 10)])"
  by pat_completeness auto
termination
  by (relation "measure id") auto

declare str_nat.simps [simp del]

definition str_int :: "int \<Rightarrow> string" where
  "str_int i = (if i < 0 then CHR ''-'' # str_nat (nat (- i)) else str_nat (nat i))"

definition str_sequence :: "int option \<Rightarrow> string" where
  "str_sequence sequence = (case sequence of None \<Rightarrow> ''None'' | Some i \<Rightarrow> str_int i)"

text \<open>
  \<open>row_dict\<close> for a row that reaches the grouping: such a row has at least five columns, so
  the five fixed keys are all present; \<open>Point_code\<close> and \<open>Sequence\<close> are the two entries the
  loop overwrites or adds, and \<open>attrib\<close> is present only for a row with more than five
  columns.
\<close>

record row_dict =
  PointNumber :: string
  Easting :: string
  Northing :: string
  Height :: string
  Point_code :: string
  Sequence :: string
  attrib :: "(string \<times> string) list option"

text \<open>
  The loop \<open>for j in range(0, len(attributes), 2)\<close>, over the list of the values of \<open>j\<close>.
  Every \<open>j\<close> of the range is below \<open>len(attributes)\<close>, so \<open>attributes[j]\<close> is in range.
\<close>

fun attributes_loop ::
  "nat list \<Rightarrow> string list \<Rightarrow> (string \<times> string) list \<Rightarrow> (string \<times> string) list" where
  "attributes_loop [] attributes attributes_dict = attributes_dict"
| "attributes_loop (j # js) attributes attributes_dict =
     (let key = attributes ! j;
          value = (if j + 1 < length attributes then attributes ! (j + 1) else '''')
      in attributes_loop js attributes (AList.update key value attributes_dict))"

definition range_step2 :: "nat \<Rightarrow> nat list" where
  "range_step2 n = map (\<lambda>i. 2 * i) [0 ..< (n + 1) div 2]"

definition attributes_of :: "string list \<Rightarrow> (string \<times> string) list" where
  "attributes_of attributes = attributes_loop (range_step2 (length attributes)) attributes []"

text \<open>
  \<open>all_pts_map\<close> has the three fixed keys \<open>"Line"\<close>, \<open>"Point"\<close>, \<open>"Unknown"\<close>; under each
  is a dictionary from the code to a dictionary from the sequence to the list of rows.
\<close>

type_synonym by_sequence = "(int option \<times> row_dict list) list"
type_synonym by_code = "(string \<times> by_sequence) list"
type_synonym all_pts = "point_type \<Rightarrow> by_code"

text \<open>\<open>d.setdefault(code, {}).setdefault(sequence, []).append(row)\<close>.\<close>

definition bucket_append :: "by_code \<Rightarrow> string \<Rightarrow> int option \<Rightarrow> row_dict \<Rightarrow> by_code" where
  "bucket_append d code sequence row =
     (let d1 = setdefault code [] d;
          inner = (case map_of d1 code of Some m \<Rightarrow> m | None \<Rightarrow> []);
          inner1 = setdefault sequence [] inner;
          pts = (case map_of inner1 sequence of Some l \<Rightarrow> l | None \<Rightarrow> [])
      in AList.update code (AList.update sequence (pts @ [row]) inner1) d1)"

text \<open>
  The test \<open>if point_code\<close>: the row has a fifth column and it is not empty.
\<close>

definition has_point_code :: "string list \<Rightarrow> bool" where
  "has_point_code row = (5 \<le> length row \<and> row ! 4 \<noteq> [])"

text \<open>The row as it is appended, for a row that passed the test.\<close>

definition row_entry :: "string list \<Rightarrow> string \<Rightarrow> int option \<Rightarrow> row_dict" where
  "row_entry row pcode sequence =
     \<lparr>PointNumber = row ! 0, Easting = row ! 1, Northing = row ! 2, Height = row ! 3,
      Point_code = pcode, Sequence = str_sequence sequence,
      attrib = (if 5 < length row then Some (attributes_of (drop 5 row)) else None)\<rparr>"

text \<open>
  One turn of \<open>for row in reader\<close>; the state is \<open>all_pts_map\<close> and \<open>needed_pcodes\<close>. An
  exception of \<open>process_code\<close> is not caught here.
\<close>

definition survey_row ::
  "string option list \<Rightarrow> string option list \<Rightarrow> string list
     \<Rightarrow> all_pts \<times> string list \<Rightarrow> error + all_pts \<times> string list" where
  "survey_row point_codes_ref line_codes_ref row st =
     (case st of (all_pts_map, needed_pcodes) \<Rightarrow>
        if has_point_code row then
          (case process_code (row ! 4) line_codes_ref point_codes_ref of
             Inl e \<Rightarrow> Inl e
           | Inr (success, pcode, sequence, point_type) \<Rightarrow>
               Inr (all_pts_map (point_type :=
                      bucket_append (all_pts_map point_type) pcode sequence
                        (row_entry row pcode sequence)),
                    if pcode \<in> set needed_pcodes then needed_pcodes
                    else needed_pcodes @ [pcode]))
        else Inr st)"

text \<open>
  What \<open>open\<close> and \<open>csv.reader\<close> give for the path: the rows of the file, or one of the two
  errors that \<open>get_survey\<close> catches. The \<open>except\<close> clauses catch nothing else, so a
  \<open>ValueError\<close> from a row leaves \<open>get_survey\<close>.
\<close>

datatype survey_file = FileNotFoundError | PermissionError | Rows "string list list"

definition get_survey ::
  "survey_file \<Rightarrow> string option list \<Rightarrow> string option list \<Rightarrow> string list
     \<Rightarrow> error + all_pts option \<times> string list" where
  "get_survey file point_codes_ref line_codes_ref needed_pcodes =
     (case file of
        Rows rows \<Rightarrow>
          (case try_fold (survey_row point_codes_ref line_codes_ref) rows
                  (\<lambda>_. [], needed_pcodes) of
             Inl e \<Rightarrow> Inl e
           | Inr (all_pts_map, needed) \<Rightarrow> Inr (Some all_pts_map, needed))
      | FileNotFoundError \<Rightarrow> Inr (None, needed_pcodes)
      | PermissionError \<Rightarrow> Inr (None, needed_pcodes))"

subsection \<open>\<open>get_layer_from_pcode\<close>\<close>

text \<open>
  \<open>code_layer_map\<close> is the third dictionary of \<open>get_codes\<close>: its keys are \<open>Code\<close>
  attributes and its values \<open>Layer\<close> attributes, either of which is \<open>None\<close> when the
  attribute is missing. \<open>"attrib_" + layer\<close> raises \<open>TypeError\<close> when \<open>layer\<close> is \<open>None\<close>.
\<close>

fun layers_loop ::
  "string list \<Rightarrow> (string option \<times> string option) list \<Rightarrow> string set \<Rightarrow> error + string set" where
  "layers_loop [] code_layer_map needed_layers = Inr needed_layers"
| "layers_loop (pcode # rest) code_layer_map needed_layers =
     (case map_of code_layer_map (Some pcode) of
        Some None \<Rightarrow> Inl TypeError
      | Some (Some layer) \<Rightarrow>
          layers_loop rest code_layer_map
            (needed_layers \<union> {layer, ''attrib_'' @ layer, ''points_'' @ layer})
      | None \<Rightarrow>
          layers_loop rest code_layer_map
            (needed_layers \<union> {''Spare'', ''attrib_Spare'', ''points_Spare''}))"

definition get_layer_from_pcode ::
  "string list \<Rightarrow> (string option \<times> string option) list \<Rightarrow> error + string set" where
  "get_layer_from_pcode pcode_list code_layer_map = layers_loop pcode_list code_layer_map {''Points''}"

text \<open>The layer a needed code resolves to, and the three layers added for it.\<close>

definition chosen_layer :: "(string option \<times> string option) list \<Rightarrow> string \<Rightarrow> string" where
  "chosen_layer code_layer_map pcode =
     (case map_of code_layer_map (Some pcode) of Some (Some layer) \<Rightarrow> layer | _ \<Rightarrow> ''Spare'')"

definition layer_family :: "string \<Rightarrow> string set" where
  "layer_family layer = {layer, ''attrib_'' @ layer, ''points_'' @ layer}"

subsection \<open>Reading the results\<close>



definition bucket :: "all_pts \<Rightarrow> point_type \<times> string \<times> int option \<Rightarrow> row_dict list" where
  "bucket all_pts_map key =
     (case key of (point_type, code, sequence) \<Rightarrow>
        (case map_of (all_pts_map point_type) code of
           None \<Rightarrow> []
         | Some inner \<Rightarrow> (case map_of inner sequence of None \<Rightarrow> [] | Some pts \<Rightarrow> pts)))"

subsection \<open>\<open>get_codes\<close>\<close>

text \<open>
  An element of the parsed library: its tag (with the namespace in braces in front), its
  attributes, its text and its child elements. A document that does not parse never reaches
  the loops, so the functions below start from the root element.
\<close>

datatype element = Element string "(string \<times> string) list" "string option" "element list"

definition namespace :: string where
  "namespace = ''{http://trimble.com/schema/fxl}''"

type_synonym code_dict = "(string option \<times> (string \<times> string) list) list"
type_synonym code_layer = "(string option \<times> string option) list"

text \<open>
  The body of \<open>for gchild in child\<close>. \<open>s in gchild.tag\<close> is a substring test, and the two
  tests are two separate \<open>if\<close> statements.
\<close>

definition feature_definition ::
  "element \<Rightarrow> code_dict \<times> code_dict \<times> code_layer \<Rightarrow> code_dict \<times> code_dict \<times> code_layer" where
  "feature_definition gchild st =
     (case gchild of Element tag attrs txt kids \<Rightarrow>
        (let st1 =
           (if sublist (namespace @ ''PointFeatureDefinition'') tag then
              (case st of (point_code_dict_ref, line_code_dict_ref, code_layer_map_ref) \<Rightarrow>
                 (let point_code = map_of attrs ''Code'' in
                  (setdefault point_code attrs point_code_dict_ref,
                   line_code_dict_ref,
                   setdefault point_code (map_of attrs ''Layer'') code_layer_map_ref)))
            else st)
         in if sublist (namespace @ ''LineFeatureDefinition'') tag then
              (case st1 of (point_code_dict_ref, line_code_dict_ref, code_layer_map_ref) \<Rightarrow>
                 (let line_code = map_of attrs ''Code'' in
                  (point_code_dict_ref,
                   setdefault line_code attrs line_code_dict_ref,
                   setdefault line_code (map_of attrs ''Layer'') code_layer_map_ref)))
            else st1))"

definition feature_definitions ::
  "element \<Rightarrow> code_dict \<times> code_dict \<times> code_layer \<Rightarrow> code_dict \<times> code_dict \<times> code_layer" where
  "feature_definitions child st =
     (case child of Element tag attrs txt gchildren \<Rightarrow>
        if sublist (namespace @ ''FeatureDefinitions'') tag
        then fold feature_definition gchildren st else st)"

definition get_codes :: "element \<Rightarrow> code_dict \<times> code_dict \<times> code_layer" where
  "get_codes root =
     (case root of Element tag attrs txt children \<Rightarrow>
        fold feature_definitions children ([], [], []))"

text \<open>
  The \<open>Layer\<close> attribute of the feature definition stored in a code table under a code:
  \<open>None\<close> when the code is not a key, \<open>Some None\<close> when the definition has no such attribute.
\<close>

definition declared_layer :: "code_dict \<Rightarrow> string option \<Rightarrow> string option option" where
  "declared_layer table code = map_option (\<lambda>attrs. map_of attrs ''Layer'') (map_of table code)"

text \<open>
  The feature definitions of a library in document order, as the two nested loops of
  \<open>get_codes\<close> meet them: each with its kind and its attributes. An element whose tag passes
  both tests counts as a point definition and then as a line definition.
\<close>

datatype feature_kind = PointFeature | LineFeature

definition declarations_of :: "element \<Rightarrow> (feature_kind \<times> (string \<times> string) list) list" where
  "declarations_of gchild =
     (case gchild of Element tag attrs txt kids \<Rightarrow>
        (if sublist (namespace @ ''PointFeatureDefinition'') tag then [(PointFeature, attrs)] else [])
        @ (if sublist (namespace @ ''LineFeatureDefinition'') tag then [(LineFeature, attrs)] else []))"

definition declarations :: "element \<Rightarrow> (feature_kind \<times> (string \<times> string) list) list" where
  "declarations root =
     (case root of Element tag attrs txt children \<Rightarrow>
        concat (map (\<lambda>child. case child of Element ctag cattrs ctxt gchildren \<Rightarrow>
                       if sublist (namespace @ ''FeatureDefinitions'') ctag
                       then concat (map declarations_of gchildren) else [])
                    children))"

text \<open>
  The attributes of the first definition in the list that is of one of the given kinds and
  declares the code.
\<close>

definition first_declaration ::
  "(feature_kind \<times> (string \<times> string) list) list \<Rightarrow> (feature_kind \<Rightarrow> bool) \<Rightarrow> string option
     \<Rightarrow> (string \<times> string) list option" where
  "first_declaration ds kinds code =
     map_option snd (find (\<lambda>d. kinds (fst d) \<and> map_of (snd d) ''Code'' = code) ds)"

text \<open>What one definition does to the three dictionaries.\<close>

definition declare_feature ::
  "feature_kind \<times> (string \<times> string) list \<Rightarrow> code_dict \<times> code_dict \<times> code_layer
     \<Rightarrow> code_dict \<times> code_dict \<times> code_layer" where
  "declare_feature d st =
     (case st of (point_code_dict_ref, line_code_dict_ref, code_layer_map_ref) \<Rightarrow>
        (let code = map_of (snd d) ''Code'' in
         if fst d = PointFeature
         then (setdefault code (snd d) point_code_dict_ref, line_code_dict_ref,
               setdefault code (map_of (snd d) ''Layer'') code_layer_map_ref)
         else (point_code_dict_ref, setdefault code (snd d) line_code_dict_ref,
               setdefault code (map_of (snd d) ''Layer'') code_layer_map_ref)))"

subsection \<open>\<open>get_layers\<close>\<close>

text \<open>\<open>s.split(sep)\<close> for a separator of one character.\<close>

fun split_on :: "char \<Rightarrow> string \<Rightarrow> string list" where
  "split_on sep [] = [[]]"
| "split_on sep (c # cs) =
     (if c = sep then [] # split_on sep cs
      else (case split_on sep cs of w # ws \<Rightarrow> (c # w) # ws | [] \<Rightarrow> [[c]]))"

type_synonym layer_dict = "(string option \<times> (string \<times> string option) list) list"

text \<open>
  The loop \<open>for sub_elem in layer\<close>; its state is \<open>layers_ref\<close>, \<open>layer_values\<close> and
  \<open>name_value\<close>. \<open>sub_elem.tag.split("}")[1]\<close> raises \<open>IndexError\<close> for a tag without a brace.
\<close>

fun layer_properties ::
  "element list \<Rightarrow> layer_dict \<times> (string \<times> string option) list \<times> string option
     \<Rightarrow> error + layer_dict \<times> (string \<times> string option) list \<times> string option" where
  "layer_properties [] st = Inr st"
| "layer_properties (Element tag attrs txt kids # rest) (layers_ref, layer_values, name_value) =
     (case split_on (CHR ''}'') tag of
        a # layer_property # others \<Rightarrow>
          if layer_property = ''Name''
          then layer_properties rest (setdefault txt [] layers_ref, layer_values, txt)
          else layer_properties rest
                 (layers_ref, setdefault layer_property txt layer_values, name_value)
      | _ \<Rightarrow> Inl IndexError)"

text \<open>
  The body of \<open>for layer in child\<close>. \<open>layers_ref[name_value]\<close> raises \<open>KeyError\<close> when the
  definition has no \<open>Name\<close> element and no layer called \<open>x\<close> is known.
\<close>

definition layer_definition :: "element \<Rightarrow> layer_dict \<Rightarrow> error + layer_dict" where
  "layer_definition layer layers_ref =
     (case layer of Element tag attrs txt sub_elems \<Rightarrow>
        if sublist (namespace @ ''LayerDefinition'') tag then
          (case layer_properties sub_elems (layers_ref, [], Some ''x'') of
             Inl e \<Rightarrow> Inl e
           | Inr (layers1, layer_values, name_value) \<Rightarrow>
               (case map_of layers1 name_value of
                  None \<Rightarrow> Inl KeyError
                | Some old \<Rightarrow>
                    Inr (AList.update name_value
                           (fold (\<lambda>kv d. AList.update (fst kv) (snd kv) d) layer_values old)
                           layers1)))
        else Inr layers_ref)"

definition get_layers :: "element \<Rightarrow> error + layer_dict" where
  "get_layers root =
     (case root of Element tag attrs txt children \<Rightarrow>
        try_fold
          (\<lambda>child layers_ref.
             case child of Element ctag cattrs ctxt clayers \<Rightarrow>
               if sublist (namespace @ ''LayerDefinitions'') ctag
               then try_fold layer_definition clayers layers_ref
               else Inr layers_ref)
          children [])"

subsection \<open>Calls into the drawing library\<close>

text \<open>
  The drawing is built by calls into \<open>ezdxf\<close> on the global document. A call is recorded by
  its name and the texts it is made from (a number by the text it is parsed from). Whether
  the library accepts a call, given the calls made on the document so far, is a parameter
  \<open>ok\<close>; a call it does not accept raises (a layer that exists already, for one), and all
  such exceptions are the one value \<open>DXFError\<close>. An action extends the record of calls and
  may end with an exception, which stops everything after it.
\<close>

type_synonym trace = "(string \<times> string list) list"
type_synonym action = "trace \<Rightarrow> trace \<times> error option"
type_synonym ezdxf = "trace \<Rightarrow> string \<times> string list \<Rightarrow> bool"

definition call :: "ezdxf \<Rightarrow> string \<Rightarrow> string list \<Rightarrow> action" where
  "call ok name args t =
     (if ok t (name, args) then (t @ [(name, args)], None) else (t, Some DXFError))"

definition raise :: "error \<Rightarrow> action" where
  "raise e t = (t, Some e)"

definition skip :: action where
  "skip t = (t, None)"

definition then_do :: "action \<Rightarrow> action \<Rightarrow> action" where
  "then_do a b t = (case a t of (t1, None) \<Rightarrow> b t1 | (t1, Some e) \<Rightarrow> (t1, Some e))"

fun seq :: "action list \<Rightarrow> action" where
  "seq [] = skip"
| "seq (a # as) = then_do a (seq as)"

definition MAP_RGB_TO_CAD :: "(string \<times> string) list" where
  "MAP_RGB_TO_CAD =
     [(''FF804000'', ''36''), (''FFD3D3D3'', ''254''), (''FFFFFF00'', ''2''),
      (''FF008000'', ''96''), (''FF0080FF'', ''150''), (''FFFF7F00'', ''30''),
      (''FFFF003F'', ''240''), (''FF000040'', ''178''), (''FFFFA500'', ''40''),
      (''FFADADAD'', ''253''), (''FFFF00FF'', ''6''), (''FF3F00FF'', ''180''),
      (''FF800080'', ''216''), (''FF0000A0'', ''174''), (''FF0000FF'', ''5''),
      (''FF003FFF'', ''160''), (''FF009926'', ''104''), (''FF00FF00'', ''3''),
      (''FFFF0000'', ''1''), (''FFFFFFFF'', ''7'')]"

definition POINTCODE_TO_TEXT :: "(string \<times> string) list" where
  "POINTCODE_TO_TEXT =
     [(''wmf_av'', ''A.V.''), (''wmf_bb'', ''BB''), (''wmf_bm'', ''B.M.''),
      (''wmf_conn'', ''Connection'' @ [CHR 0x0A] @ ''Easting: ###'' @ [CHR 0x0A] @ ''Northing: ###''),
      (''wmf_dc'', ''D.C''), (''wmf_fh'', ''F.H.''), (''wmf_fm'', ''FM''), (''wmf_sv'', ''S.V''),
      (''wmf_marker'', ''MarkerPlate''), (''wmf_sc'', ''S.C.''), (''wmf_scv'', ''Sc.V''),
      (''wmf_scmh'', ''Sc.MH''), (''wmf_rd'', ''RD''), (''wmf_sd'', ''S.D.''),
      (''wmf_tp'', ''Tee'')]"

text \<open>
  \<open>float(s)\<close> on a text raises \<open>ValueError\<close> when the text is not a number. The empty text
  is not a number; which of the other texts are is a parameter, \<open>is_float\<close>.
\<close>

definition py_float_ok :: "(string \<Rightarrow> bool) \<Rightarrow> string \<Rightarrow> bool" where
  "py_float_ok is_float s = (s \<noteq> [] \<and> is_float s)"

text \<open>The three conversions of a point's coordinates.\<close>

definition float3 :: "(string \<Rightarrow> bool) \<Rightarrow> row_dict \<Rightarrow> action" where
  "float3 is_float point =
     (if py_float_ok is_float (Easting point) \<and> py_float_ok is_float (Northing point)
         \<and> py_float_ok is_float (Height point)
      then skip else raise ValueError)"

subsection \<open>\<open>add_attrib_text\<close>, \<open>create_blocks\<close>, \<open>set_dxf_view\<close>\<close>

definition attrib_mtext :: "ezdxf \<Rightarrow> string \<times> string \<Rightarrow> action" where
  "attrib_mtext ok kv =
     (case split_on (CHR '':'') (fst kv) of
        a # label # others \<Rightarrow>
          call ok ''add_mtext''
            [[CHR 0x5C] @ ''H0.5x;'' @ label @ '': '' @ [CHR 0x5C] @ ''H1x;'' @ snd kv]
      | _ \<Rightarrow> raise IndexError)"

definition add_attrib_text :: "ezdxf \<Rightarrow> (string \<Rightarrow> bool) \<Rightarrow> row_dict \<Rightarrow> string \<Rightarrow> string \<Rightarrow> action" where
  "add_attrib_text ok is_float point point_code layer_name =
     seq [float3 is_float point,
          (case attrib point of None \<Rightarrow> skip | Some d \<Rightarrow> seq (map (attrib_mtext ok) d)),
          call ok ''add_point'' [Easting point, Northing point, Height point, ''points_'' @ layer_name],
          call ok ''add_text''
            [''Code: '' @ point_code
               @ (if Sequence point = ''None'' \<or> Sequence point = ''-1'' then '''' else Sequence point),
             ''Point Code''],
          call ok ''add_text'' [''Z = '' @ Height point, ''Point Height''],
          call ok ''add_text'' [''PtNum: '' @ PointNumber point, ''Point Number'']]"

definition create_blocks :: "ezdxf \<Rightarrow> string list \<Rightarrow> action" where
  "create_blocks ok needed_pcodes =
     seq (map (\<lambda>needed_pcode.
                 case map_of POINTCODE_TO_TEXT needed_pcode of
                   Some block_text \<Rightarrow> call ok ''create_block'' [block_text @ ''_Block'', block_text]
                 | None \<Rightarrow> skip)
              needed_pcodes)"

text \<open>All the rows under one code, in the order of the nested loops over the sequences.\<close>

definition points_of :: "by_sequence \<Rightarrow> row_dict list" where
  "points_of seqs = concat (map snd seqs)"

text \<open>
  \<open>set_dxf_view\<close>: \<open>survey_ref['Line']\<close> raises \<open>TypeError\<close> when \<open>survey_ref\<close> is \<open>None\<close>. The
  extent is computed from the eastings and northings of the Line rows and handed to the
  document in three calls.
\<close>

definition set_dxf_view :: "ezdxf \<Rightarrow> (string \<Rightarrow> bool) \<Rightarrow> all_pts option \<Rightarrow> action" where
  "set_dxf_view ok is_float survey_ref =
     (case survey_ref of
        None \<Rightarrow> raise TypeError
      | Some survey \<Rightarrow>
          (let pts = concat (map (\<lambda>cs. points_of (snd cs)) (survey Line)) in
           seq (map (\<lambda>point. if py_float_ok is_float (Easting point)
                                 \<and> py_float_ok is_float (Northing point)
                              then skip else raise ValueError) pts
                @ [call ok ''$LIMMIN'' (concat (map (\<lambda>p. [Easting p, Northing p]) pts)),
                   call ok ''$LIMMAX'' (concat (map (\<lambda>p. [Easting p, Northing p]) pts)),
                   call ok ''set_modelspace_vport'' (concat (map (\<lambda>p. [Easting p, Northing p]) pts))])))"

subsection \<open>\<open>create_dxf\<close>\<close>

text \<open>
  The loop over \<open>needed_layers\<close>, a set, in the order in which the set is iterated;
  \<open>layer_color\<close> keeps its value from one turn to the next, here as the number that
  \<open>int(layer_color)\<close> gives. \<open>layers[layer]['Color']\<close> raises \<open>KeyError\<close> for a layer
  definition without a \<open>Color\<close> element.
\<close>

fun layer_loop :: "ezdxf \<Rightarrow> layer_dict \<Rightarrow> string list \<Rightarrow> int \<Rightarrow> action" where
  "layer_loop ok layers [] layer_color = skip"
| "layer_loop ok layers (layer # rest) layer_color =
     (case map_of layers (Some layer) of
        None \<Rightarrow>
          then_do (call ok ''layers.add'' [layer, str_int 7]) (layer_loop ok layers rest 7)
      | Some props \<Rightarrow>
          if layer \<notin> set [''0'', ''Points''] then
            (case map_of props ''Color'' of
               None \<Rightarrow> raise KeyError
             | Some color \<Rightarrow>
                 (case (case color of
                          None \<Rightarrow> Inr 7
                        | Some rgb \<Rightarrow> (case map_of MAP_RGB_TO_CAD rgb of
                                        None \<Rightarrow> Inr 7 | Some cad \<Rightarrow> py_int cad)) of
                    Inl e \<Rightarrow> raise e
                  | Inr c \<Rightarrow>
                      then_do (call ok ''layers.add'' [layer, str_int c])
                              (layer_loop ok layers rest c)))
          else then_do (call ok ''layers.add'' [layer, str_int layer_color])
                 (layer_loop ok layers rest layer_color))"

text \<open>
  The body of \<open>for point_code in survey['Line']\<close> and of \<open>for point_code in
  survey['Unknown']\<close>, which differ only in what they print: both look the code up in
  \<open>line_codes_dict\<close>, and both subscripts raise \<open>KeyError\<close> on a missing key.
\<close>

definition polyline_group ::
  "ezdxf \<Rightarrow> (string \<Rightarrow> bool) \<Rightarrow> code_dict \<Rightarrow> string \<times> by_sequence \<Rightarrow> action" where
  "polyline_group ok is_float line_codes_dict entry =
     (case entry of (point_code, seqs) \<Rightarrow>
        (case map_of line_codes_dict (Some point_code) of
           None \<Rightarrow> raise KeyError
         | Some attrs \<Rightarrow>
             (case map_of attrs ''Layer'' of
                None \<Rightarrow> raise KeyError
              | Some layer_name \<Rightarrow>
                  seq (map (\<lambda>sq.
                         then_do
                           (seq (map (\<lambda>point.
                                   then_do (add_attrib_text ok is_float point point_code layer_name)
                                           (float3 is_float point))
                                 (snd sq)))
                           (call ok ''add_polyline3d''
                              (concat (map (\<lambda>p. [Easting p, Northing p, Height p]) (snd sq))
                               @ [layer_name])))
                       seqs))))"

text \<open>
  The two inner loops of \<open>for point_code in survey['Point']\<close> over the rows of a code;
  \<open>locations\<close> grows from row to row and \<open>insert_block\<close> inserts all of it every time.
\<close>

fun point_rows ::
  "ezdxf \<Rightarrow> (string \<Rightarrow> bool) \<Rightarrow> string option \<Rightarrow> string \<Rightarrow> string \<Rightarrow> row_dict list
     \<Rightarrow> row_dict list \<Rightarrow> action" where
  "point_rows ok is_float block_name point_code layer_name [] locations = skip"
| "point_rows ok is_float block_name point_code layer_name (point # rest) locations =
     (case block_name of
        None \<Rightarrow>
          then_do (add_attrib_text ok is_float point point_code layer_name)
                  (point_rows ok is_float block_name point_code layer_name rest locations)
      | Some name \<Rightarrow>
          seq [float3 is_float point,
               call ok ''add_multileader_mtext''
                 [case map_of POINTCODE_TO_TEXT point_code of Some t \<Rightarrow> t | None \<Rightarrow> '''',
                  Easting point, Northing point],
               add_attrib_text ok is_float point point_code layer_name,
               seq (map (\<lambda>p. call ok ''add_blockref'' [name, Easting p, Northing p, Height p])
                        (locations @ [point])),
               point_rows ok is_float block_name point_code layer_name rest (locations @ [point])])"

definition point_group ::
  "ezdxf \<Rightarrow> (string \<Rightarrow> bool) \<Rightarrow> code_dict \<Rightarrow> string \<times> by_sequence \<Rightarrow> action" where
  "point_group ok is_float point_codes_dict entry =
     (case entry of (point_code, seqs) \<Rightarrow>
        (case map_of point_codes_dict (Some point_code) of
           None \<Rightarrow> raise KeyError
         | Some attrs \<Rightarrow>
             (case map_of attrs ''Layer'' of
                None \<Rightarrow> raise KeyError
              | Some layer_name \<Rightarrow>
                  point_rows ok is_float
                    (map_option (\<lambda>t. t @ ''_Block'') (map_of POINTCODE_TO_TEXT point_code))
                    point_code layer_name (points_of seqs) [])))"

text \<open>
  \<open>create_dxf\<close>, in two parts: the statements up to and including the loop over
  \<open>needed_layers\<close>, and the three loops over the survey followed by \<open>doc.saveas\<close>, the call
  that writes the file. The global \<open>needed_pcodes\<close> is read by \<open>create_blocks\<close>;
  \<open>needed_layers\<close> is given as the list in which the set is iterated. The document is
  the fresh one made when the module is loaded, so the test \<open>"OpenSans" not in doc.styles\<close>
  holds and the style is added. \<open>survey['Line']\<close> raises \<open>TypeError\<close> when \<open>survey\<close> is
  \<open>None\<close>.
\<close>

definition dxf_setup :: "ezdxf \<Rightarrow> string list \<Rightarrow> layer_dict \<Rightarrow> string list \<Rightarrow> action" where
  "dxf_setup ok needed_pcodes layers needed_layers =
     seq [call ok ''$PDMODE'' [], call ok ''$PDSIZE'' [],
          call ok ''styles.add'' [''OpenSans''],
          create_blocks ok needed_pcodes,
          call ok ''mleader_styles.duplicate_entry'' [''Standard'', ''EZDXF''],
          call ok ''layers.add'' [''Point Code'', str_int 1],
          call ok ''layers.add'' [''Point Height'', str_int 5],
          call ok ''layers.add'' [''Point Number'', str_int 3],
          layer_loop ok layers needed_layers 7]"

definition create_dxf ::
  "ezdxf \<Rightarrow> (string \<Rightarrow> bool) \<Rightarrow> string list \<Rightarrow> string \<Rightarrow> layer_dict \<Rightarrow> all_pts option
     \<Rightarrow> code_dict \<Rightarrow> code_dict \<Rightarrow> string list \<Rightarrow> action" where
  "create_dxf ok is_float needed_pcodes output_dxf_path layers survey point_codes_dict
       line_codes_dict needed_layers =
     then_do (dxf_setup ok needed_pcodes layers needed_layers)
       (case survey of
          None \<Rightarrow> raise TypeError
        | Some s \<Rightarrow>
            seq [seq (map (polyline_group ok is_float line_codes_dict) (s Line)),
                 seq (map (polyline_group ok is_float line_codes_dict) (s Unknown)),
                 seq (map (point_group ok is_float point_codes_dict) (s Point)),
                 call ok ''saveas'' [output_dxf_path]])"

subsection \<open>The script\<close>

text \<open>
  The statements under \<open>if __name__ == "__main__"\<close>, from \<open>needed_pcodes = []\<close> on, for a
  library that parses to \<open>root\<close> and a survey path that opens as \<open>file\<close>. \<open>iter\<close> is the order
  in which a set of layer names is iterated. Nothing in the script catches an exception.
\<close>

definition main ::
  "ezdxf \<Rightarrow> (string \<Rightarrow> bool) \<Rightarrow> (string set \<Rightarrow> string list) \<Rightarrow> element \<Rightarrow> survey_file
     \<Rightarrow> string \<Rightarrow> trace \<times> error option" where
  "main ok is_float iter root file output_dxf_path =
     (case get_layers root of
        Inl e \<Rightarrow> ([], Some e)
      | Inr layers \<Rightarrow>
          (case get_codes root of (point_code_dict, line_code_dict, code_layer_map) \<Rightarrow>
             (case get_survey file (map fst point_code_dict) (map fst line_code_dict) [] of
                Inl e \<Rightarrow> ([], Some e)
              | Inr (survey, needed_pcodes) \<Rightarrow>
                  then_do (set_dxf_view ok is_float survey)
                    (case get_layer_from_pcode needed_pcodes code_layer_map of
                       Inl e \<Rightarrow> raise e
                     | Inr needed_layers \<Rightarrow>
                         create_dxf ok is_float needed_pcodes output_dxf_path layers survey
                           point_code_dict line_code_dict (iter needed_layers))
                    [])))"

subsection \<open>Example inputs\<close>

definition example_library :: element where
  "example_library =
     Element ''{http://trimble.com/schema/fxl}FeatureLibrary'' [] None
       [Element ''{http://trimble.com/schema/fxl}LayerDefinitions'' [] None
          [Element ''{http://trimble.com/schema/fxl}LayerDefinition'' [] None
             [Element ''{http://trimble.com/schema/fxl}Name'' [] (Some ''Kerb'') [],
              Element ''{http://trimble.com/schema/fxl}Color'' [] (Some ''FFFF0000'') []],
           Element ''{http://trimble.com/schema/fxl}LayerDefinition'' [] None
             [Element ''{http://trimble.com/schema/fxl}Name'' [] (Some ''BenchMarks'') [],
              Element ''{http://trimble.com/schema/fxl}Color'' [] (Some ''FF0000FF'') []]],
        Element ''{http://trimble.com/schema/fxl}FeatureDefinitions'' [] None
          [Element ''{http://trimble.com/schema/fxl}PointFeatureDefinition''
             [(''Code'', ''bm''), (''Layer'', ''BenchMarks'')] None [],
           Element ''{http://trimble.com/schema/fxl}LineFeatureDefinition''
             [(''Code'', ''kb''), (''Layer'', ''Kerb'')] None []]]"

text \<open>A library that declares the code \<open>ab\<close> twice, as a point and then as a line.\<close>

definition library_both :: element where
  "library_both =
     Element ''{http://trimble.com/schema/fxl}FeatureLibrary'' [] None
       [Element ''{http://trimble.com/schema/fxl}FeatureDefinitions'' [] None
          [Element ''{http://trimble.com/schema/fxl}PointFeatureDefinition''
             [(''Code'', ''ab''), (''Layer'', ''P'')] None [],
           Element ''{http://trimble.com/schema/fxl}LineFeatureDefinition''
             [(''Code'', ''ab''), (''Layer'', ''L'')] None []]]"

definition example_rows :: "string list list" where
  "example_rows =
     [[''PointNumber'', ''Easting'', ''Northing'', ''Height''],
      [''1'', ''100.0'', ''200.0'', ''10.0'', ''kb1''],
      [''2'', ''101.0'', ''201.0'', ''10.5'', ''xyz123''],
      [''3'', ''102.0'', ''202.0'', ''11.0'', ''kb1''],
      [''4'', ''103.0'', ''203.0'', ''11.5'', ''bm'', ''Diameter:'', ''150'', ''Material:'']]"

text \<open>Helper for the invariant of \<open>get_codes\<close>.\<close>

definition codes_inv :: "code_dict \<times> code_dict \<times> code_layer \<Rightarrow> bool" where
  "codes_inv st = (case st of (p, l, m) \<Rightarrow>
     (\<forall>c. (map_of l c = None \<longrightarrow> map_of m c = declared_layer p c)
        \<and> (map_of p c = None \<longrightarrow> map_of m c = declared_layer l c)
        \<and> (map_of m c = declared_layer p c \<or> map_of m c = declared_layer l c)))"

text \<open>An action that only adds calls to the record, none of them \<open>saveas\<close>.\<close>

definition no_save :: "action \<Rightarrow> bool" where
  "no_save a = (\<forall>t. \<exists>new. fst (a t) = t @ new \<and> ''saveas'' \<notin> fst ` set new)"

text \<open>The index that \<open>get_survey\<close> builds from rows, for the tables of the example library.\<close>

definition index_of :: "string list list \<Rightarrow> all_pts" where
  "index_of rows =
     (case get_survey (Rows rows) [Some ''bm''] [Some ''kb''] [] of
        Inr (Some all_pts_map, needed) \<Rightarrow> all_pts_map
      | _ \<Rightarrow> (\<lambda>_. []))"

definition example_survey :: all_pts where
  "example_survey = index_of example_rows"

text \<open>A line row without a height, and a row with an unknown code.\<close>

definition rows_blank_height :: "string list list" where
  "rows_blank_height =
     [[''1'', ''100.0'', ''200.0'', [], ''kb1''],
      [''2'', ''101.0'', ''201.0'', ''10.5'', ''xyz'']]"

text \<open>A token with a digit run of 4301 digits.\<close>

definition long_token :: string where
  "long_token = ''kb'' @ replicate 4301 (CHR ''1'')"

text \<open>A library that declares the code \<open>ab\<close> twice, as a line and then as a point.\<close>

definition library_line_first :: element where
  "library_line_first =
     Element ''{http://trimble.com/schema/fxl}FeatureLibrary'' [] None
       [Element ''{http://trimble.com/schema/fxl}FeatureDefinitions'' [] None
          [Element ''{http://trimble.com/schema/fxl}LineFeatureDefinition''
             [(''Code'', ''ab''), (''Layer'', ''L'')] None [],
           Element ''{http://trimble.com/schema/fxl}PointFeatureDefinition''
             [(''Code'', ''ab''), (''Layer'', ''P'')] None []]]"


section \<open>Properties\<close>

lemmas re_defs = re_match_def re_plus_def re_one_def re_opt_group_def re_end_def
  is_alpha_def is_word_def is_digit_def

subsection \<open>What the pattern matches\<close>

lemma alpha_not_digit: "is_alpha c \<Longrightarrow> \<not> is_digit c"
  by (auto simp: is_alpha_def is_digit_def)

lemma alpha_not_nl: "is_alpha c \<Longrightarrow> c \<noteq> CHR 0x0A"
  by (auto simp: is_alpha_def)

lemma digit_not_nl: "is_digit c \<Longrightarrow> c \<noteq> CHR 0x0A"
  by (auto simp: is_digit_def)

lemma re_one_Some: "re_one p k s = Some r \<longleftrightarrow> (\<exists>c cs. s = c # cs \<and> p c \<and> k cs = Some r)"
  by (cases s) (auto simp: re_one_def)

lemma re_star_sound:
  "re_star p k s = Some r \<Longrightarrow> \<exists>u v. s = u @ v \<and> list_all p u \<and> k v = Some r"
proof (induction s)
  case Nil
  then show ?case by simp
next
  case (Cons c cs)
  show ?case
  proof (cases "p c \<and> re_star p k cs \<noteq> None")
    case True
    with Cons.prems have "re_star p k cs = Some r" by auto
    from Cons.IH [OF this] obtain u v where "cs = u @ v" "list_all p u" "k v = Some r" by blast
    with True have "c # cs = (c # u) @ v \<and> list_all p (c # u) \<and> k v = Some r" by simp
    then show ?thesis by blast
  next
    case False
    with Cons.prems have "k (c # cs) = Some r" by (auto split: if_splits)
    then have "c # cs = [] @ (c # cs) \<and> list_all p [] \<and> k (c # cs) = Some r" by simp
    then show ?thesis by blast
  qed
qed

lemma re_star_complete:
  "list_all p u \<Longrightarrow> k v \<noteq> None \<Longrightarrow> re_star p k (u @ v) \<noteq> None"
proof (induction u)
  case Nil
  then show ?case by (cases v) (auto split: option.splits)
next
  case (Cons c u)
  then show ?case by (auto split: option.splits)
qed

lemma re_plus_sound:
  "re_plus p k s = Some r \<Longrightarrow> \<exists>c u v. s = c # u @ v \<and> p c \<and> list_all p u \<and> k v = Some r"
  unfolding re_plus_def re_one_Some using re_star_sound by fastforce

lemma re_plus_complete:
  "p c \<Longrightarrow> list_all p u \<Longrightarrow> k v \<noteq> None \<Longrightarrow> re_plus p k (c # u @ v) \<noteq> None"
  unfolding re_plus_def using re_star_complete [of p u k v] by (simp add: re_one_def)


lemma re_opt_group_sound:
  assumes "re_opt_group is_digit (\<lambda>g2 r2. if re_end r2 then Some (f g2) else None) r1 = Some x"
  shows "\<exists>ds nl. r1 = ds @ nl \<and> list_all is_digit ds \<and> re_end nl
           \<and> x = f (if ds = [] then None else Some ds)"
proof (cases "re_plus is_digit (\<lambda>r. if re_end r then Some (f (Some (take (length r1 - length r) r1))) else None) r1")
  case None
  with assms have "re_end r1" "x = f None"
    by (auto simp: re_opt_group_def split: if_splits)
  then have "r1 = [] @ r1 \<and> list_all is_digit [] \<and> re_end r1 \<and> x = f (if [] = ([]::string) then None else Some [])"
    by simp
  then show ?thesis by blast
next
  case (Some y)
  with assms have xy: "x = y" by (simp add: re_opt_group_def)
  from re_plus_sound [OF Some] obtain c u v where
    r1: "r1 = c # u @ v" and c: "is_digit c" and u: "list_all is_digit u"
    and k: "(if re_end v then Some (f (Some (take (length r1 - length v) r1))) else None) = Some y"
    by blast
  from k have e: "re_end v" and y: "y = f (Some (take (length r1 - length v) r1))"
    by (auto split: if_splits)
  from r1 have "take (length r1 - length v) r1 = c # u" by simp
  with y xy r1 c u e have "r1 = (c # u) @ v \<and> list_all is_digit (c # u) \<and> re_end v
      \<and> x = f (if c # u = [] then None else Some (c # u))" by simp
  then show ?thesis by blast
qed

lemma re_match_sound:
  assumes "re_match s = Some (g1, g2)"
  shows "groups_of s g1 g2"
proof -
  let ?K = "\<lambda>r1. re_opt_group is_digit
          (\<lambda>g2 r2. if re_end r2 then Some (take (length s - length r1) s, g2) else None) r1"
  from assms have "re_plus is_alpha (re_star is_word (re_one is_alpha ?K)) s = Some (g1, g2)"
    by (simp add: re_match_def)
  from re_plus_sound [OF this] obtain a u v where
    s1: "s = a # u @ v" and a: "is_alpha a" and u: "list_all is_alpha u"
    and k1: "re_star is_word (re_one is_alpha ?K) v = Some (g1, g2)" by blast
  from re_star_sound [OF k1] obtain w t where
    v: "v = w @ t" and w: "list_all is_word w" and k2: "re_one is_alpha ?K t = Some (g1, g2)"
    by blast
  from k2 obtain b r1 where t: "t = b # r1" and b: "is_alpha b" and k3: "?K r1 = Some (g1, g2)"
    unfolding re_one_Some by blast
  from re_opt_group_sound [of "\<lambda>g. (take (length s - length r1) s, g)" r1 "(g1, g2)"] k3
  obtain ds nl where r1: "r1 = ds @ nl" and ds: "list_all is_digit ds" and nl: "re_end nl"
    and x: "(g1, g2) = (take (length s - length r1) s, if ds = [] then None else Some ds)"
    by blast
  have s: "s = a # (u @ w) @ [b] @ ds @ nl" using s1 v t r1 by simp
  have "take (length s - length r1) s = a # (u @ w) @ [b]" using s1 v t by simp
  with x have g: "g1 = a # (u @ w) @ [b]" "g2 = (if ds = [] then None else Some ds)" by simp_all
  have m: "list_all is_word (u @ w)" using u w by (auto simp: list_all_iff is_word_def)
  show ?thesis unfolding groups_of_def using s a m b ds nl g unfolding re_end_def by blast
qed

lemma re_match_complete:
  assumes "groups_of s g1 g2"
  shows "re_match s \<noteq> None"
proof -
  from assms obtain a m b ds nl where
    s: "s = a # m @ [b] @ ds @ nl" and a: "is_alpha a" and m: "list_all is_word m"
    and b: "is_alpha b" and ds: "list_all is_digit ds" and nl: "re_end nl"
    unfolding groups_of_def re_end_def by blast
  let ?K2 = "\<lambda>r1 g2 r2. if re_end r2 then Some (take (length s - length r1) s, g2) else None"
  let ?K = "\<lambda>r1. re_opt_group is_digit (?K2 r1) r1"
  have k: "?K (ds @ nl) \<noteq> None"
  proof (cases ds)
    case Nil
    with nl show ?thesis by (auto simp: re_opt_group_def split: option.splits)
  next
    case (Cons d ds')
    with ds have "is_digit d" "list_all is_digit ds'" by simp_all
    with re_plus_complete [of is_digit d ds' "\<lambda>r. ?K2 (ds @ nl) (Some (take (length (ds @ nl) - length r) (ds @ nl))) r" nl] nl
    have "re_plus is_digit (\<lambda>r. ?K2 (ds @ nl) (Some (take (length (ds @ nl) - length r) (ds @ nl))) r) (ds @ nl) \<noteq> None"
      using Cons by simp
    then show ?thesis by (auto simp: re_opt_group_def split: option.splits)
  qed
  have "re_one is_alpha ?K (b # ds @ nl) \<noteq> None" using b k by (simp add: re_one_def)
  with re_star_complete [of is_word m "re_one is_alpha ?K" "b # ds @ nl"] m
  have "re_star is_word (re_one is_alpha ?K) (m @ b # ds @ nl) \<noteq> None" by blast
  with re_plus_complete [of is_alpha a "[]" "re_star is_word (re_one is_alpha ?K)" "m @ b # ds @ nl"] a
  have "re_plus is_alpha (re_star is_word (re_one is_alpha ?K)) (a # m @ b # ds @ nl) \<noteq> None"
    by simp
  then show ?thesis unfolding re_match_def s by simp
qed

lemma groups_of_unique:
  assumes "groups_of s g1 g2" and "groups_of s h1 h2"
  shows "g1 = h1 \<and> g2 = h2"
proof -
  from assms(1) obtain a m b ds nl where
    s: "s = a # m @ [b] @ ds @ nl" and b: "is_alpha b" and ds: "list_all is_digit ds"
    and nl: "nl = [] \<or> nl = [CHR 0x0A]"
    and g: "g1 = a # m @ [b]" "g2 = (if ds = [] then None else Some ds)"
    unfolding groups_of_def by blast
  from assms(2) obtain a' m' b' ds' nl' where
    s': "s = a' # m' @ [b'] @ ds' @ nl'" and b': "is_alpha b'" and ds': "list_all is_digit ds'"
    and nl': "nl' = [] \<or> nl' = [CHR 0x0A]"
    and h: "h1 = a' # m' @ [b']" "h2 = (if ds' = [] then None else Some ds')"
    unfolding groups_of_def by blast
  let ?isnl = "\<lambda>c. c = CHR 0x0A"
  have split: "takeWhile is_digit (dropWhile ?isnl (rev (x @ [y] @ z @ e))) = rev z
      \<and> dropWhile is_digit (dropWhile ?isnl (rev (x @ [y] @ z @ e))) = y # rev x"
    if y: "is_alpha y" and z: "list_all is_digit z" and e: "e = [] \<or> e = [CHR 0x0A]"
    for x y z e
  proof -
    have zd: "\<forall>c\<in>set (rev z). is_digit c" using z by (simp add: list_all_iff)
    have hd_ok: "dropWhile ?isnl (rev z @ y # rev x) = rev z @ y # rev x"
    proof (cases "rev z")
      case Nil
      then show ?thesis using alpha_not_nl [OF y] by simp
    next
      case (Cons c cs)
      with zd have "is_digit c" by simp
      then show ?thesis using Cons digit_not_nl by simp
    qed
    have d1: "dropWhile ?isnl (rev (x @ [y] @ z @ e)) = rev z @ y # rev x"
    proof (cases "e = []")
      case True
      then show ?thesis using hd_ok by simp
    next
      case False
      with e have "e = [CHR 0x0A]" by simp
      then show ?thesis using hd_ok by simp
    qed
    have "takeWhile is_digit (rev z @ y # rev x) = rev z @ takeWhile is_digit (y # rev x)"
      by (rule takeWhile_append2) (use zd in simp)
    then have t2: "takeWhile is_digit (rev z @ y # rev x) = rev z"
      using alpha_not_digit [OF y] by simp
    have "dropWhile is_digit (rev z @ y # rev x) = dropWhile is_digit (y # rev x)"
      by (rule dropWhile_append2) (use zd in simp)
    then have d2: "dropWhile is_digit (rev z @ y # rev x) = y # rev x"
      using alpha_not_digit [OF y] by simp
    show ?thesis unfolding d1 t2 d2 by simp
  qed
  have e1: "s = (a # m) @ [b] @ ds @ nl" using s by simp
  have e2: "s = (a' # m') @ [b'] @ ds' @ nl'" using s' by simp
  from split [OF b ds nl, of "a # m"] have A:
    "takeWhile is_digit (dropWhile ?isnl (rev s)) = rev ds"
    "dropWhile is_digit (dropWhile ?isnl (rev s)) = b # rev (a # m)"
    unfolding e1 [symmetric] by simp_all
  from split [OF b' ds' nl', of "a' # m'"] have B:
    "takeWhile is_digit (dropWhile ?isnl (rev s)) = rev ds'"
    "dropWhile is_digit (dropWhile ?isnl (rev s)) = b' # rev (a' # m')"
    unfolding e2 [symmetric] by simp_all
  from A B have "rev ds = rev ds'" "b # rev (a # m) = b' # rev (a' # m')" by simp_all
  then have "ds = ds'" "b = b'" "a # m = a' # m'" by simp_all
  with g h show ?thesis by simp
qed

lemma re_match_iff: "re_match s = Some (g1, g2) \<longleftrightarrow> groups_of s g1 g2"
proof
  assume "re_match s = Some (g1, g2)"
  then show "groups_of s g1 g2" by (rule re_match_sound)
next
  assume g: "groups_of s g1 g2"
  from re_match_complete [OF g] obtain h1 h2 where h: "re_match s = Some (h1, h2)" by auto
  from groups_of_unique [OF g re_match_sound [OF h]] h show "re_match s = Some (g1, g2)" by simp
qed

lemma base_code_shape_iff:
  "base_code_shape b \<longleftrightarrow>
     (\<exists>a m z. b = a # m @ [z] \<and> is_alpha a \<and> list_all is_word m \<and> is_alpha z)"
proof
  assume h: "base_code_shape b"
  then have "2 \<le> length b" by (simp add: base_code_shape_def)
  then have "\<exists>a t. b = a # t \<and> t \<noteq> []" by (cases b) auto
  then obtain a t where b: "b = a # t" and t: "t \<noteq> []" by blast
  from t obtain m z where tz: "t = m @ [z]" by (cases t rule: rev_cases) auto
  from h b tz have "is_alpha a" "list_all is_word m" "is_alpha z"
    by (auto simp: base_code_shape_def)
  with b tz show "\<exists>a m z. b = a # m @ [z] \<and> is_alpha a \<and> list_all is_word m \<and> is_alpha z"
    by blast
next
  assume "\<exists>a m z. b = a # m @ [z] \<and> is_alpha a \<and> list_all is_word m \<and> is_alpha z"
  then show "base_code_shape b" by (auto simp: base_code_shape_def is_word_def)
qed

lemma groups_of_alt:
  "groups_of s g1 g2 \<longleftrightarrow>
     (\<exists>ds nl. s = g1 @ ds @ nl \<and> base_code_shape g1 \<and> list_all is_digit ds
        \<and> (nl = [] \<or> nl = [CHR 0x0A]) \<and> g2 = (if ds = [] then None else Some ds))"
  unfolding groups_of_def base_code_shape_iff by (rule iffI; clarsimp; blast)

lemma re_match_token:
  assumes "base_code_shape b" and "list_all is_digit ds" and "nl = [] \<or> nl = [CHR 0x0A]"
  shows "re_match (b @ ds @ nl) = Some (b, if ds = [] then None else Some ds)"
  unfolding re_match_iff groups_of_alt using assms by blast

lemma re_match_Some_shape:
  assumes "re_match s = Some (g1, g2)"
  shows "\<exists>ds nl. s = g1 @ ds @ nl \<and> base_code_shape g1 \<and> list_all is_digit ds
        \<and> (nl = [] \<or> nl = [CHR 0x0A]) \<and> g2 = (if ds = [] then None else Some ds)"
  using assms unfolding re_match_iff groups_of_alt .

lemma re_match_accepts_iff: "re_match s \<noteq> None \<longleftrightarrow> code_grammar s"
proof
  assume "re_match s \<noteq> None"
  then obtain g1 g2 where "re_match s = Some (g1, g2)" by auto
  from re_match_Some_shape [OF this] show "code_grammar s"
    unfolding code_grammar_def by blast
next
  assume "code_grammar s"
  then obtain b ds nl where "s = b @ ds @ nl" "base_code_shape b" "list_all is_digit ds"
    "nl = [] \<or> nl = [CHR 0x0A]" unfolding code_grammar_def by blast
  with re_match_token [of b ds nl] show "re_match s \<noteq> None" by simp
qed

subsection \<open>Classification\<close>

lemma re_match_long_token:
  "re_match long_token = Some (''kb'', Some (replicate 4301 (CHR ''1'')))"
proof -
  have b: "base_code_shape ''kb''"
    by (simp add: base_code_shape_def is_alpha_def is_word_def)
  have d: "list_all is_digit (replicate 4301 (CHR ''1''))"
    by (simp add: list_all_iff is_digit_def)
  have n: "([]::string) = [] \<or> ([]::string) = [CHR 0x0A]" by simp
  have r: "replicate 4301 (CHR ''1'') \<noteq> []"
    by (metis length_replicate list.size(3) zero_neq_numeral)
  from re_match_token [OF b d n] r show ?thesis by (simp add: long_token_def)
qed

lemma process_code_raises_iff:
  "process_code tok line_codes_ref point_codes_ref = Inl e
     \<longleftrightarrow> e = ValueError \<and> \<not> digits_within_limit tok"
  by (auto simp: process_code_def digits_within_limit_def py_int_def Let_def
      split: option.splits sum.splits if_splits)

lemma spec_grammar_single_letter: "spec_grammar ''k''"
proof -
  have "''k'' = ''k'' @ [] @ [] \<and> ''k'' \<noteq> [] \<and> list_all is_alpha ''k''
        \<and> (([]::string) = []
             \<or> (\<exists>r l. ([]::string) = r @ [l] \<and> list_all (\<lambda>c. is_alpha c \<or> is_digit c) r
                  \<and> is_alpha l))
        \<and> list_all is_digit []"
    by (simp add: is_alpha_def)
  then show ?thesis unfolding spec_grammar_def by blast
qed

text \<open>
  C5, as stated, fails: the single letter \<open>k\<close> is a run of letters followed by no digits,
  so the grammar in the specification's words accepts it, but the pattern needs two
  characters for a base code and does not match.
\<close>

theorem grammar_single_letter_counterexample:
  "\<not> ((re_match ''k'' \<noteq> None) = spec_grammar ''k'')"
  using spec_grammar_single_letter by (simp add: re_defs)

text \<open>
  C5, amended. A token is accepted by the pattern exactly when it is a base code (a letter,
  then any letters, digits and underscores, then a letter), followed by an optional run of
  digits, followed by at most one final newline. Every other string is a miss:
  \<open>process_code\<close> returns with the success flag \<open>False\<close> (and the fixed code \<open>sprl\<close>,
  differentiator 1, kind Unknown) and raises nothing.
\<close>

theorem re_match_accepts:
  "(re_match s \<noteq> None) = code_grammar s
   \<and> (\<not> code_grammar s \<longrightarrow>
        process_code s line_codes_ref point_codes_ref = Inr (False, ''sprl'', Some 1, Unknown))"
proof -
  have a: "(re_match s \<noteq> None) = code_grammar s" by (rule re_match_accepts_iff)
  have "process_code s line_codes_ref point_codes_ref = Inr (False, ''sprl'', Some 1, Unknown)"
    if "\<not> code_grammar s"
  proof -
    from that a have "\<not> re_match s \<noteq> None" by blast
    then have "re_match s = None" by blast
    then show ?thesis by (simp add: process_code_def)
  qed
  with a show ?thesis by blast
qed

theorem re_match_accepts_witness:
  "(re_match ''k3'' \<noteq> None) = code_grammar ''k3'' \<and> \<not> code_grammar ''k3''
   \<and> process_code ''k3'' [Some ''k''] [] = Inr (False, ''sprl'', Some 1, Unknown)"
proof -
  have n: "re_match ''k3'' = None" by (simp add: re_defs)
  with re_match_accepts [of "''k3''" "[Some ''k'']" "[]"] show ?thesis by simp
qed

text \<open>
  C6, as stated, fails: for a token whose base code is in both tables and whose digit run
  has 4301 digits, \<open>int\<close> raises \<open>ValueError\<close> and the classifier returns no kind.
\<close>

theorem both_tables_long_digits_counterexample:
  "re_match long_token = Some (''kb'', Some (replicate 4301 (CHR ''1'')))
   \<and> Some ''kb'' \<in> set [Some ''kb''] \<and> Some ''kb'' \<in> set [Some ''bm'', Some ''kb'']
   \<and> process_code long_token [Some ''kb''] [Some ''bm'', Some ''kb''] = Inl ValueError"
  by (simp add: process_code_def re_match_long_token py_int_def int_max_str_digits_def)

text \<open>
  C6, amended. A token whose base code is a member of both the line-code table and the
  point-code table, and whose digit run (if it has one) is of at most 4300 digits, is
  classified as Point: the test against \<open>point_codes_ref\<close> comes second and overwrites the
  kind set by the test against \<open>line_codes_ref\<close>. With a longer digit run the classifier
  raises \<open>ValueError\<close>.
\<close>

theorem process_code_both_tables:
  assumes "re_match tok = Some (code, g2)"
    and "Some code \<in> set line_codes_ref"
    and "Some code \<in> set point_codes_ref"
  shows "(digits_within_limit tok \<longrightarrow>
            (\<exists>d. process_code tok line_codes_ref point_codes_ref = Inr (True, code, d, Point)))
    \<and> (\<not> digits_within_limit tok \<longrightarrow>
            process_code tok line_codes_ref point_codes_ref = Inl ValueError)"
  using assms
  by (cases g2) (auto simp: process_code_def digits_within_limit_def py_int_def)

theorem process_code_both_tables_witness:
  "re_match ''kb3'' = Some (''kb'', Some ''3'')
   \<and> Some ''kb'' \<in> set [Some ''kb'', Some ''bb'']
   \<and> Some ''kb'' \<in> set [Some ''bm'', Some ''kb'']
   \<and> digits_within_limit ''kb3''
   \<and> (\<exists>d. process_code ''kb3'' [Some ''kb'', Some ''bb''] [Some ''bm'', Some ''kb'']
          = Inr (True, ''kb'', d, Point))
   \<and> \<not> digits_within_limit long_token
   \<and> process_code long_token [Some ''kb'', Some ''bb''] [Some ''bm'', Some ''kb''] = Inl ValueError"
proof -
  have v: "\<not> digits_within_limit long_token"
    by (simp add: digits_within_limit_def re_match_long_token int_max_str_digits_def)
  have m: "re_match ''kb3'' = Some (''kb'', Some ''3'')"
    by (simp add: re_defs)
  have l: "Some ''kb'' \<in> set [Some ''kb'', Some ''bb'']" by simp
  have p: "Some ''kb'' \<in> set [Some ''bm'', Some ''kb'']" by simp
  have w: "digits_within_limit ''kb3''"
    by (simp add: digits_within_limit_def m int_max_str_digits_def)
  from process_code_both_tables [OF m l p] process_code_both_tables [OF re_match_long_token l p]
    m l p w v
  show ?thesis by blast
qed

text \<open>
  C3, as stated, fails: \<open>xyz123\<close> matches the pattern with the digit run \<open>123\<close>, its base
  code is in neither table, and the differentiator returned is the constant 1.
\<close>

theorem differentiator_unknown_counterexample:
  "re_match ''xyz123'' = Some (''xyz'', Some ''123'') \<and> py_int ''123'' = Inr 123
   \<and> process_code ''xyz123'' [Some ''kb''] [Some ''bm''] = Inr (False, ''sprl'', Some 1, Unknown)"
  by (simp add: process_code_def re_defs py_int_def int_max_str_digits_def decimal_def
      digit_val_def)

text \<open>
  C3, amended. For a token made of a base code \<open>b\<close>, a digit run \<open>ds\<close> of at most 4300
  digits and at most one final newline: when \<open>b\<close> is in the line or the point table, the
  differentiator is the integer value of \<open>ds\<close> if \<open>ds\<close> is not empty; without digits it is
  \<open>-1\<close> if \<open>b\<close> is in the line table (whatever the kind) and unset if \<open>b\<close> is in the point
  table only. When \<open>b\<close> is in neither table the differentiator is the constant 1, with or
  without digits. With a digit run of more than 4300 digits the classifier raises
  \<open>ValueError\<close>, whatever the tables.
\<close>

theorem process_code_differentiator:
  assumes "base_code_shape b" and "list_all is_digit ds" and "nl = [] \<or> nl = [CHR 0x0A]"
  shows "process_code (b @ ds @ nl) line_codes_ref point_codes_ref =
     (if int_max_str_digits < length ds then Inl ValueError
      else if Some b \<in> set point_codes_ref
      then Inr (True, b,
            if ds \<noteq> [] then Some (decimal ds)
            else if Some b \<in> set line_codes_ref then Some (- 1) else None,
            Point)
      else if Some b \<in> set line_codes_ref
      then Inr (True, b, if ds \<noteq> [] then Some (decimal ds) else Some (- 1), Line)
      else Inr (False, ''sprl'', Some 1, Unknown))"
  using re_match_token [OF assms]
  by (auto simp: process_code_def py_int_def int_max_str_digits_def)

theorem process_code_differentiator_witness:
  "base_code_shape ''kb'' \<and> list_all is_digit ''37'' \<and> decimal ''37'' = 37
   \<and> process_code ''kb37'' [Some ''kb''] [Some ''bm''] = Inr (True, ''kb'', Some 37, Line)
   \<and> process_code ''kb'' [Some ''kb''] [Some ''bm''] = Inr (True, ''kb'', Some (- 1), Line)
   \<and> process_code ''bm'' [Some ''kb''] [Some ''bm''] = Inr (True, ''bm'', None, Point)"
proof -
  have kb: "base_code_shape ''kb''" and bm: "base_code_shape ''bm''"
    by (simp_all add: base_code_shape_def is_alpha_def is_word_def)
  have d: "list_all is_digit ''37''" and e: "list_all is_digit []"
    by (simp_all add: is_digit_def)
  have v: "decimal ''37'' = 37" by (simp add: decimal_def digit_val_def)
  have n: "([]::string) = [] \<or> ([]::string) = [CHR 0x0A]" by simp
  from process_code_differentiator [OF kb d n, of "[Some ''kb'']" "[Some ''bm'']"]
    process_code_differentiator [OF kb e n, of "[Some ''kb'']" "[Some ''bm'']"]
    process_code_differentiator [OF bm e n, of "[Some ''kb'']" "[Some ''bm'']"]
    kb d v
  show ?thesis by (simp add: int_max_str_digits_def)
qed

subsection \<open>Ingestion\<close>

lemma setdefault_alt:
  "setdefault k v d = (if map_of d k = None then d @ [(k, v)] else d)"
  by (simp add: setdefault_def map_of_eq_None_iff)

lemma map_of_setdefault:
  "map_of (setdefault k v d) =
     (case map_of d k of None \<Rightarrow> (map_of d)(k \<mapsto> v) | Some y \<Rightarrow> map_of d)"
  by (auto simp: setdefault_alt fun_eq_iff map_add_def split: option.splits)

lemma map_of_setdefault_same:
  "map_of (setdefault k v d) k = (case map_of d k of None \<Rightarrow> Some v | Some y \<Rightarrow> Some y)"
  by (simp add: map_of_setdefault split: option.splits)

lemma map_of_setdefault_other:
  "k' \<noteq> k \<Longrightarrow> map_of (setdefault k v d) k' = map_of d k'"
  by (simp add: map_of_setdefault split: option.splits)

lemma bucket_append_same:
  "map_of (bucket_append d code sq row) code =
     Some (AList.update sq
       ((case map_of (case map_of d code of Some x \<Rightarrow> x | None \<Rightarrow> []) sq of
           Some l \<Rightarrow> l | None \<Rightarrow> []) @ [row])
       (setdefault sq [] (case map_of d code of Some x \<Rightarrow> x | None \<Rightarrow> [])))"
  by (simp add: bucket_append_def Let_def update_conv' map_of_setdefault_same
      split: option.splits)

lemma bucket_append_other:
  "code' \<noteq> code \<Longrightarrow> map_of (bucket_append d code sq row) code' = map_of d code'"
  by (simp add: bucket_append_def Let_def update_conv' map_of_setdefault_other)

lemma bucket_append_lookup:
  "bucket (m (pt := bucket_append (m pt) code sq row)) key =
     (if key = (pt, code, sq) then bucket m key @ [row] else bucket m key)"
proof -
  obtain pt' code' sq' where key: "key = (pt', code', sq')" by (cases key)
  show ?thesis
  proof (cases "pt' = pt")
    case False
    then show ?thesis by (simp add: key bucket_def)
  next
    case pt: True
    show ?thesis
    proof (cases "code' = code")
      case False
      then show ?thesis using pt by (simp add: key bucket_def bucket_append_other)
    next
      case code: True
      show ?thesis
      proof (cases "sq' = sq")
        case True
        then show ?thesis using pt code
          by (simp add: key bucket_def bucket_append_same update_conv' split: option.splits)
      next
        case False
        then show ?thesis using pt code
          by (simp add: key bucket_def bucket_append_same update_conv'
              map_of_setdefault_other split: option.splits)
      qed
    qed
  qed
qed

















text \<open>
  C1, as stated, fails: the base code of \<open>xyz123\<close> is \<open>xyz\<close>, in neither table, and the code
  that \<open>process_code\<close> returns and \<open>get_survey\<close> registers is \<open>sprl\<close>.
\<close>

theorem unknown_code_counterexample:
  "re_match ''xyz123'' = Some (''xyz'', Some ''123'')
   \<and> process_code ''xyz123'' [Some ''kb''] [Some ''bm''] = Inr (False, ''sprl'', Some 1, Unknown)
   \<and> map_sum id snd
        (get_survey (Rows [[''1'', ''2'', ''3'', ''4'', ''xyz123'']]) [Some ''bm''] [Some ''kb''] [])
       = Inr [''sprl'']"
  by (simp add: process_code_def re_defs get_survey_def survey_row_def has_point_code_def
      py_int_def int_max_str_digits_def)

text \<open>
  C1, amended. For every token that matches the pattern with a base code in neither table
  and a digit run of at most 4300 digits (if any), \<open>process_code\<close> returns the success flag
  \<open>False\<close>, kind Unknown, the fixed code \<open>sprl\<close> and the differentiator 1; the ingester
  appends the row to the bucket Unknown, \<open>sprl\<close>, 1 and adds \<open>sprl\<close> to the needed codes
  unless it is there already. With a longer digit run \<open>process_code\<close> raises \<open>ValueError\<close>
  and so does the ingester.
\<close>

theorem unknown_code_sprl:
  assumes "re_match (row ! 4) = Some (code, g2)"
    and "Some code \<notin> set line_codes_ref"
    and "Some code \<notin> set point_codes_ref"
    and "has_point_code row"
  shows "(digits_within_limit (row ! 4) \<longrightarrow>
      process_code (row ! 4) line_codes_ref point_codes_ref
        = Inr (False, ''sprl'', Some 1, Unknown)
      \<and> (\<exists>m1. survey_row point_codes_ref line_codes_ref row (m, needed)
                  = Inr (m1, if ''sprl'' \<in> set needed then needed else needed @ [''sprl''])
               \<and> bucket m1 (Unknown, ''sprl'', Some 1)
                  = bucket m (Unknown, ''sprl'', Some 1) @ [row_entry row ''sprl'' (Some 1)]))
    \<and> (\<not> digits_within_limit (row ! 4) \<longrightarrow>
      process_code (row ! 4) line_codes_ref point_codes_ref = Inl ValueError
      \<and> survey_row point_codes_ref line_codes_ref row (m, needed) = Inl ValueError)"
proof (cases "digits_within_limit (row ! 4)")
  case True
  have p: "process_code (row ! 4) line_codes_ref point_codes_ref
             = Inr (False, ''sprl'', Some 1, Unknown)"
    using assms(1-3) True
    by (cases g2) (auto simp: process_code_def digits_within_limit_def py_int_def)
  let ?m1 = "m (Unknown := bucket_append (m Unknown) ''sprl'' (Some 1)
                              (row_entry row ''sprl'' (Some 1)))"
  have s: "survey_row point_codes_ref line_codes_ref row (m, needed)
             = Inr (?m1, if ''sprl'' \<in> set needed then needed else needed @ [''sprl''])"
    using assms(4) p by (simp add: survey_row_def)
  have b: "bucket ?m1 (Unknown, ''sprl'', Some 1)
             = bucket m (Unknown, ''sprl'', Some 1) @ [row_entry row ''sprl'' (Some 1)]"
    by (simp add: bucket_append_lookup)
  from True p s b show ?thesis by blast
next
  case False
  then have p: "process_code (row ! 4) line_codes_ref point_codes_ref = Inl ValueError"
    by (simp add: process_code_raises_iff)
  then have "survey_row point_codes_ref line_codes_ref row (m, needed) = Inl ValueError"
    using assms(4) by (simp add: survey_row_def)
  with False p show ?thesis by simp
qed

theorem unknown_code_sprl_witness:
  "re_match ([''1'', ''2'', ''3'', ''4'', ''xyz123''] ! 4) = Some (''xyz'', Some ''123'')
   \<and> Some ''xyz'' \<notin> set [Some ''kb''] \<and> Some ''xyz'' \<notin> set [Some ''bm'']
   \<and> has_point_code [''1'', ''2'', ''3'', ''4'', ''xyz123'']
   \<and> digits_within_limit ([''1'', ''2'', ''3'', ''4'', ''xyz123''] ! 4)
   \<and> process_code ''xyz123'' [Some ''kb''] [Some ''bm''] = Inr (False, ''sprl'', Some 1, Unknown)
   \<and> map_sum id snd (survey_row [Some ''bm''] [Some ''kb''] [''1'', ''2'', ''3'', ''4'', ''xyz123'']
            (\<lambda>_. [], [''kb''])) = Inr [''kb'', ''sprl'']
   \<and> \<not> digits_within_limit ([''1'', ''2'', ''3'', ''4'', long_token] ! 4)
   \<and> survey_row [Some ''bm''] [Some ''ab''] [''1'', ''2'', ''3'', ''4'', long_token] (\<lambda>_. [], [])
       = Inl ValueError"
proof -
  have r2: "re_match ([''1'', ''2'', ''3'', ''4'', long_token] ! 4)
              = Some (''kb'', Some (replicate 4301 (CHR ''1'')))"
    using re_match_long_token by simp
  have l2: "Some ''kb'' \<notin> set [Some ''ab'']" and q2: "Some ''kb'' \<notin> set [Some ''bm'']"
    by simp_all
  have h2: "has_point_code [''1'', ''2'', ''3'', ''4'', long_token]"
    by (simp add: has_point_code_def long_token_def)
  have w2: "\<not> digits_within_limit ([''1'', ''2'', ''3'', ''4'', long_token] ! 4)"
    by (simp add: digits_within_limit_def re_match_long_token int_max_str_digits_def)
  from unknown_code_sprl [OF r2 l2 q2 h2, of "\<lambda>_. []" "[]"] w2
  have s2: "survey_row [Some ''bm''] [Some ''ab''] [''1'', ''2'', ''3'', ''4'', long_token]
              (\<lambda>_. [], []) = Inl ValueError"
    by blast
  have r: "re_match ([''1'', ''2'', ''3'', ''4'', ''xyz123''] ! 4) = Some (''xyz'', Some ''123'')"
    by (simp add: re_defs)
  have l: "Some ''xyz'' \<notin> set [Some ''kb'']" and q: "Some ''xyz'' \<notin> set [Some ''bm'']"
    by simp_all
  have h: "has_point_code [''1'', ''2'', ''3'', ''4'', ''xyz123'']"
    by (simp add: has_point_code_def)
  have w: "digits_within_limit ([''1'', ''2'', ''3'', ''4'', ''xyz123''] ! 4)"
    using r by (simp add: digits_within_limit_def int_max_str_digits_def)
  from unknown_code_sprl [OF r l q h, of "\<lambda>_. []" "[''kb'']"] w
  obtain m1 where
    p: "process_code ([''1'', ''2'', ''3'', ''4'', ''xyz123''] ! 4) [Some ''kb''] [Some ''bm'']
          = Inr (False, ''sprl'', Some 1, Unknown)"
    and s: "survey_row [Some ''bm''] [Some ''kb''] [''1'', ''2'', ''3'', ''4'', ''xyz123'']
              (\<lambda>_. [], [''kb'']) = Inr (m1, [''kb'', ''sprl''])"
    by auto
  from r l q h w p s w2 s2 show ?thesis by simp
qed

subsection \<open>Layer resolution\<close>

lemma layers_loop_closed:
  assumes "\<forall>c\<in>set pcode_list. map_of code_layer_map (Some c) \<noteq> Some None"
  shows "layers_loop pcode_list code_layer_map acc =
           Inr (acc \<union> (\<Union>c\<in>set pcode_list. layer_family (chosen_layer code_layer_map c)))"
  using assms
proof (induction pcode_list arbitrary: acc)
  case Nil
  then show ?case by simp
next
  case (Cons p rest)
  from Cons.prems have rest: "\<forall>c\<in>set rest. map_of code_layer_map (Some c) \<noteq> Some None"
    and p: "map_of code_layer_map (Some p) \<noteq> Some None" by simp_all
  show ?case
  proof (cases "map_of code_layer_map (Some p)")
    case None
    then show ?thesis using Cons.IH [OF rest]
      by (auto simp: chosen_layer_def layer_family_def)
  next
    case (Some lo)
    with p obtain layer where lo: "lo = Some layer" by (cases lo) auto
    with Some show ?thesis using Cons.IH [OF rest]
      by (auto simp: chosen_layer_def layer_family_def)
  qed
qed

text \<open>
  C4, amended. When every layer that the map gives a needed code is a name, the function
  returns a set, and this set is \<open>Points\<close> together with, for each needed code, the layer
  chosen for it (its mapped layer when the code is a key of the map, \<open>Spare\<close> otherwise) and
  the two companions \<open>attrib_\<close> and \<open>points_\<close> of that layer, and nothing else. The other one
  of the two layers is in the set too when another needed code brings it. An unmapped code
  never makes the function fail.
\<close>

theorem get_layer_from_pcode_resolves:
  assumes "\<forall>c\<in>set pcode_list. map_of code_layer_map (Some c) \<noteq> Some None"
  shows "\<exists>needed_layers.
           get_layer_from_pcode pcode_list code_layer_map = Inr needed_layers
           \<and> needed_layers =
               {''Points''} \<union> (\<Union>c\<in>set pcode_list. layer_family (chosen_layer code_layer_map c))
           \<and> ''Points'' \<in> needed_layers
           \<and> (\<forall>c\<in>set pcode_list.
                 chosen_layer code_layer_map c \<in> needed_layers
                 \<and> ''attrib_'' @ chosen_layer code_layer_map c \<in> needed_layers
                 \<and> ''points_'' @ chosen_layer code_layer_map c \<in> needed_layers)"
  unfolding get_layer_from_pcode_def layers_loop_closed [OF assms]
  by (auto simp: layer_family_def)

text \<open>
  C4, as stated, fails: with one needed code that is mapped and one that is not, the set
  holds the mapped layer of the first and \<open>Spare\<close> as well, not exactly one of the two.
\<close>

theorem layers_both_counterexample:
  "get_layer_from_pcode [''kb'', ''sprl''] [(Some ''kb'', Some ''Kerb'')]
     = Inr {''Points'', ''Kerb'', ''attrib_Kerb'', ''points_Kerb'',
            ''Spare'', ''attrib_Spare'', ''points_Spare''}
   \<and> ''Kerb'' \<in> projr (get_layer_from_pcode [''kb'', ''sprl''] [(Some ''kb'', Some ''Kerb'')])
   \<and> ''Spare'' \<in> projr (get_layer_from_pcode [''kb'', ''sprl''] [(Some ''kb'', Some ''Kerb'')])"
  by (auto simp: get_layer_from_pcode_def)

theorem get_layer_from_pcode_resolves_witness:
  "map_of [(Some ''kb'', Some ''Kerb'')] (Some ''kb'') \<noteq> Some None
   \<and> map_of [(Some ''kb'', Some ''Kerb'')] (Some ''sprl'') \<noteq> Some None
   \<and> get_layer_from_pcode [''kb'', ''sprl''] [(Some ''kb'', Some ''Kerb'')]
     = Inr ({''Points''} \<union> (layer_family ''Kerb'' \<union> layer_family ''Spare''))"
proof -
  have h: "\<forall>c\<in>set [''kb'', ''sprl'']. map_of [(Some ''kb'', Some ''Kerb'')] (Some c) \<noteq> Some None"
    by simp
  from get_layer_from_pcode_resolves [OF h] h show ?thesis
    by (auto simp: chosen_layer_def)
qed

subsection \<open>The code tables\<close>

definition lib1 :: element where
  "lib1 = Element ''{http://trimble.com/schema/fxl}FXL'' [] None
     [Element ''{http://trimble.com/schema/fxl}FeatureDefinitions'' [] None
        [Element ''{http://trimble.com/schema/fxl}PointFeatureDefinition''
           [(''Code'', ''ab''), (''Layer'', ''P'')] None [],
         Element ''{http://trimble.com/schema/fxl}LineFeatureDefinition''
           [(''Code'', ''ab''), (''Layer'', ''L'')] None []]]"
lemma codes_inv_point:
  assumes "codes_inv (p, l, m)"
  shows "codes_inv (setdefault k a p, l, setdefault k (map_of a ''Layer'') m)"
proof -
  have "(map_of l c = None \<longrightarrow> map_of (setdefault k (map_of a ''Layer'') m) c = declared_layer (setdefault k a p) c)
        \<and> (map_of (setdefault k a p) c = None \<longrightarrow> map_of (setdefault k (map_of a ''Layer'') m) c = declared_layer l c)
        \<and> (map_of (setdefault k (map_of a ''Layer'') m) c = declared_layer (setdefault k a p) c
           \<or> map_of (setdefault k (map_of a ''Layer'') m) c = declared_layer l c)" for c
  proof -
    from assms have i: "map_of l c = None \<longrightarrow> map_of m c = declared_layer p c"
      "map_of p c = None \<longrightarrow> map_of m c = declared_layer l c"
      "map_of m c = declared_layer p c \<or> map_of m c = declared_layer l c"
      by (simp_all add: codes_inv_def)
    show ?thesis
    proof (cases "c = k")
      case False
      then show ?thesis using i by (simp add: map_of_setdefault_other declared_layer_def)
    next
      case True
      then show ?thesis using i
        by (cases "map_of p k"; cases "map_of m k"; cases "map_of l k")
           (auto simp: map_of_setdefault_same declared_layer_def)
    qed
  qed
  then show ?thesis by (simp add: codes_inv_def)
qed


lemma codes_inv_line:
  assumes "codes_inv (p, l, m)"
  shows "codes_inv (p, setdefault k a l, setdefault k (map_of a ''Layer'') m)"
proof -
  have "(map_of (setdefault k a l) c = None \<longrightarrow> map_of (setdefault k (map_of a ''Layer'') m) c = declared_layer p c)
        \<and> (map_of p c = None \<longrightarrow> map_of (setdefault k (map_of a ''Layer'') m) c = declared_layer (setdefault k a l) c)
        \<and> (map_of (setdefault k (map_of a ''Layer'') m) c = declared_layer p c
           \<or> map_of (setdefault k (map_of a ''Layer'') m) c = declared_layer (setdefault k a l) c)" for c
  proof -
    from assms have i: "map_of l c = None \<longrightarrow> map_of m c = declared_layer p c"
      "map_of p c = None \<longrightarrow> map_of m c = declared_layer l c"
      "map_of m c = declared_layer p c \<or> map_of m c = declared_layer l c"
      by (simp_all add: codes_inv_def)
    show ?thesis
    proof (cases "c = k")
      case False
      then show ?thesis using i by (simp add: map_of_setdefault_other declared_layer_def)
    next
      case True
      then show ?thesis using i
        by (cases "map_of p k"; cases "map_of m k"; cases "map_of l k")
           (auto simp: map_of_setdefault_same declared_layer_def)
    qed
  qed
  then show ?thesis by (simp add: codes_inv_def)
qed

lemma codes_inv_feature_definition:
  assumes "codes_inv st"
  shows "codes_inv (feature_definition gchild st)"
proof -
  obtain tag attrs tx kids where g: "gchild = Element tag attrs tx kids" by (cases gchild)
  obtain p l m where st: "st = (p, l, m)" by (cases st)
  let ?st1 = "if sublist (namespace @ ''PointFeatureDefinition'') tag
              then (setdefault (map_of attrs ''Code'') attrs p, l,
                    setdefault (map_of attrs ''Code'') (map_of attrs ''Layer'') m)
              else (p, l, m)"
  have i1: "codes_inv ?st1" using assms st codes_inv_point by simp
  obtain p1 l1 m1 where st1: "?st1 = (p1, l1, m1)" by (cases ?st1)
  have "feature_definition gchild st =
          (if sublist (namespace @ ''LineFeatureDefinition'') tag
           then (p1, setdefault (map_of attrs ''Code'') attrs l1,
                 setdefault (map_of attrs ''Code'') (map_of attrs ''Layer'') m1)
           else (p1, l1, m1))"
    using st1 by (simp add: feature_definition_def g st Let_def split: if_splits)
  then show ?thesis using i1 st1 codes_inv_line by simp
qed

lemma codes_inv_fold_feature_definition:
  "codes_inv st \<Longrightarrow> codes_inv (fold feature_definition gs st)"
  by (induction gs arbitrary: st) (simp_all add: codes_inv_feature_definition)

lemma codes_inv_feature_definitions:
  "codes_inv st \<Longrightarrow> codes_inv (feature_definitions child st)"
  by (cases child) (simp add: feature_definitions_def codes_inv_fold_feature_definition)

lemma codes_inv_fold_feature_definitions:
  "codes_inv st \<Longrightarrow> codes_inv (fold feature_definitions cs st)"
  by (induction cs arbitrary: st) (simp_all add: codes_inv_feature_definitions)

lemma codes_inv_get_codes: "codes_inv (get_codes root)"
proof -
  have "codes_inv ([], [], [])" by (simp add: codes_inv_def declared_layer_def)
  then show ?thesis
    by (cases root) (simp add: get_codes_def codes_inv_fold_feature_definitions)
qed

lemma feature_definition_declare:
  "feature_definition g st = fold declare_feature (declarations_of g) st"
proof -
  obtain tag attrs tx kids where g: "g = Element tag attrs tx kids" by (cases g)
  obtain p l m where st: "st = (p, l, m)" by (cases st)
  show ?thesis
    by (simp add: g st feature_definition_def declarations_of_def declare_feature_def Let_def)
qed

lemma fold_feature_definition_declare:
  "fold feature_definition gs st = fold declare_feature (concat (map declarations_of gs)) st"
  by (induction gs arbitrary: st) (simp_all add: feature_definition_declare)

lemma feature_definitions_declare:
  "feature_definitions c st =
     fold declare_feature
       (case c of Element ctag cattrs ctxt gchildren \<Rightarrow>
          if sublist (namespace @ ''FeatureDefinitions'') ctag
          then concat (map declarations_of gchildren) else []) st"
  by (cases c) (simp add: feature_definitions_def fold_feature_definition_declare)

lemma fold_feature_definitions_declare:
  "fold feature_definitions cs st =
     fold declare_feature
       (concat (map (\<lambda>child. case child of Element ctag cattrs ctxt gchildren \<Rightarrow>
                       if sublist (namespace @ ''FeatureDefinitions'') ctag
                       then concat (map declarations_of gchildren) else [])
                    cs)) st"
proof (induction cs arbitrary: st)
  case Nil
  then show ?case by simp
next
  case (Cons c cs)
  let ?F = "\<lambda>child. case child of Element ctag cattrs ctxt gchildren \<Rightarrow>
                       if sublist (namespace @ ''FeatureDefinitions'') ctag
                       then concat (map declarations_of gchildren) else []"
  have "fold feature_definitions (c # cs) st = fold feature_definitions cs (feature_definitions c st)"
    by simp
  also have "\<dots> = fold declare_feature (concat (map ?F cs)) (feature_definitions c st)"
    by (rule Cons.IH)
  also have "\<dots> = fold declare_feature (concat (map ?F cs)) (fold declare_feature (?F c) st)"
    by (simp only: feature_definitions_declare)
  also have "\<dots> = fold declare_feature (concat (map ?F (c # cs))) st"
    by simp
  finally show ?case .
qed

lemma get_codes_declarations:
  "get_codes root = fold declare_feature (declarations root) ([], [], [])"
  by (cases root) (simp add: get_codes_def declarations_def fold_feature_definitions_declare)

lemma fold_declare_maps:
  assumes "fold declare_feature ds (p, l, m) = (p1, l1, m1)"
  shows "map_of m1 c =
           (case map_of m c of
              Some v \<Rightarrow> Some v
            | None \<Rightarrow> map_option (\<lambda>a. map_of a ''Layer'') (first_declaration ds (\<lambda>k. True) c))
       \<and> map_of p1 c =
           (case map_of p c of
              Some v \<Rightarrow> Some v
            | None \<Rightarrow> first_declaration ds (\<lambda>k. k = PointFeature) c)
       \<and> map_of l1 c =
           (case map_of l c of
              Some v \<Rightarrow> Some v
            | None \<Rightarrow> first_declaration ds (\<lambda>k. k = LineFeature) c)"
  using assms
proof (induction ds arbitrary: p l m)
  case Nil
  then show ?case by (auto simp: first_declaration_def split: option.splits)
next
  case (Cons d ds)
  obtain k a where d: "d = (k, a)" by (cases d)
  obtain p2 l2 m2 where s: "declare_feature d (p, l, m) = (p2, l2, m2)"
    by (cases "declare_feature d (p, l, m)")
  with Cons.prems have r: "fold declare_feature ds (p2, l2, m2) = (p1, l1, m1)" by simp
  note ih = Cons.IH [OF r]
  have m2: "map_of m2 c = (case map_of m c of Some v \<Rightarrow> Some v
              | None \<Rightarrow> if map_of a ''Code'' = c then Some (map_of a ''Layer'') else None)"
    using s d
    by (cases "map_of a ''Code'' = c")
       (auto simp: declare_feature_def Let_def map_of_setdefault_same map_of_setdefault_other
             split: if_splits option.splits)
  have p2: "map_of p2 c = (case map_of p c of Some v \<Rightarrow> Some v
              | None \<Rightarrow> if k = PointFeature \<and> map_of a ''Code'' = c then Some a else None)"
    using s d
    by (cases "map_of a ''Code'' = c")
       (auto simp: declare_feature_def Let_def map_of_setdefault_same map_of_setdefault_other
             split: if_splits option.splits)
  have l2: "map_of l2 c = (case map_of l c of Some v \<Rightarrow> Some v
              | None \<Rightarrow> if k = LineFeature \<and> map_of a ''Code'' = c then Some a else None)"
    using s d
    by (cases "map_of a ''Code'' = c"; cases k)
       (auto simp: declare_feature_def Let_def map_of_setdefault_same map_of_setdefault_other
             split: if_splits option.splits)
  show ?case using ih
    by (auto simp: m2 p2 l2 d first_declaration_def split: option.splits)
qed

text \<open>
  C9, as stated, fails: in a library that declares the code \<open>ab\<close> as a point feature on
  layer \<open>P\<close> and then as a line feature on layer \<open>L\<close>, the line table holds \<open>ab\<close> with the
  declared layer \<open>L\<close>, and the merged map gives \<open>ab\<close> the layer \<open>P\<close>.
\<close>

theorem layer_map_first_wins_counterexample:
  "declared_layer (fst (snd (get_codes library_both))) (Some ''ab'') = Some (Some ''L'')
   \<and> map_of (snd (snd (get_codes library_both))) (Some ''ab'') = Some (Some ''P'')"
  by code_simp

text \<open>
  C9, amended. After \<open>get_codes\<close>, the merged map gives a code the \<open>Layer\<close> attribute of the
  first feature definition in document order that declares the code, whether a point or a
  line definition; the point table holds the attributes of the first point definition of
  the code and the line table those of its first line definition. So a code is a key of
  the merged map exactly when it is a key of one of the tables; for a code declared in one
  table only the mapped value is the \<open>Layer\<close> attribute recorded in that table; and for a
  code declared in both it is the \<open>Layer\<close> attribute recorded in one of them, the one whose
  definition comes first.
\<close>

theorem get_codes_layer_map:
  assumes "get_codes root = (point_code_dict, line_code_dict, code_layer_map)"
  shows "map_of code_layer_map c =
           map_option (\<lambda>attrs. map_of attrs ''Layer'')
             (first_declaration (declarations root) (\<lambda>k. True) c)
    \<and> map_of point_code_dict c
         = first_declaration (declarations root) (\<lambda>k. k = PointFeature) c
    \<and> map_of line_code_dict c
         = first_declaration (declarations root) (\<lambda>k. k = LineFeature) c
    \<and> (map_of code_layer_map c = None \<longleftrightarrow>
            map_of point_code_dict c = None \<and> map_of line_code_dict c = None)
    \<and> (map_of line_code_dict c = None \<longrightarrow>
          map_of code_layer_map c = declared_layer point_code_dict c)
    \<and> (map_of point_code_dict c = None \<longrightarrow>
          map_of code_layer_map c = declared_layer line_code_dict c)
    \<and> (map_of code_layer_map c = declared_layer point_code_dict c
        \<or> map_of code_layer_map c = declared_layer line_code_dict c)"
proof -
  from assms have f: "fold declare_feature (declarations root) ([], [], [])
      = (point_code_dict, line_code_dict, code_layer_map)"
    by (simp add: get_codes_declarations)
  from fold_declare_maps [OF f, of c]
  have d: "map_of code_layer_map c =
           map_option (\<lambda>attrs. map_of attrs ''Layer'')
             (first_declaration (declarations root) (\<lambda>k. True) c)"
      "map_of point_code_dict c
         = first_declaration (declarations root) (\<lambda>k. k = PointFeature) c"
      "map_of line_code_dict c
         = first_declaration (declarations root) (\<lambda>k. k = LineFeature) c"
    by simp_all
  from codes_inv_get_codes [of root] assms
  have i: "map_of line_code_dict c = None \<longrightarrow> map_of code_layer_map c = declared_layer point_code_dict c"
      "map_of point_code_dict c = None \<longrightarrow> map_of code_layer_map c = declared_layer line_code_dict c"
      "map_of code_layer_map c = declared_layer point_code_dict c
        \<or> map_of code_layer_map c = declared_layer line_code_dict c"
    by (simp_all add: codes_inv_def)
  then have k: "map_of code_layer_map c = None \<longleftrightarrow>
            map_of point_code_dict c = None \<and> map_of line_code_dict c = None"
    by (auto simp: declared_layer_def)
  from d i k show ?thesis by blast
qed

theorem get_codes_layer_map_witness:
  "get_codes example_library =
     ([(Some ''bm'', [(''Code'', ''bm''), (''Layer'', ''BenchMarks'')])],
      [(Some ''kb'', [(''Code'', ''kb''), (''Layer'', ''Kerb'')])],
      [(Some ''bm'', Some ''BenchMarks''), (Some ''kb'', Some ''Kerb'')])
   \<and> map_of [(Some ''kb'', [(''Code'', ''kb''), (''Layer'', ''Kerb'')])] (Some ''bm'') = None
   \<and> map_of [(Some ''bm'', Some ''BenchMarks''), (Some ''kb'', Some ''Kerb'')] (Some ''bm'')
       = declared_layer [(Some ''bm'', [(''Code'', ''bm''), (''Layer'', ''BenchMarks'')])] (Some ''bm'')
   \<and> map_of [(Some ''bm'', [(''Code'', ''bm''), (''Layer'', ''BenchMarks'')])] (Some ''kb'') = None
   \<and> map_of [(Some ''bm'', Some ''BenchMarks''), (Some ''kb'', Some ''Kerb'')] (Some ''kb'')
       = declared_layer [(Some ''kb'', [(''Code'', ''kb''), (''Layer'', ''Kerb'')])] (Some ''kb'')
   \<and> first_declaration (declarations library_line_first) (\<lambda>k. True) (Some ''ab'')
       = Some [(''Code'', ''ab''), (''Layer'', ''L'')]
   \<and> map_of (snd (snd (get_codes library_line_first))) (Some ''ab'') = Some (Some ''L'')
   \<and> first_declaration (declarations library_both) (\<lambda>k. True) (Some ''ab'')
       = Some [(''Code'', ''ab''), (''Layer'', ''P'')]
   \<and> map_of (snd (snd (get_codes library_both))) (Some ''ab'') = Some (Some ''P'')"
proof -
  have g: "get_codes example_library =
     ([(Some ''bm'', [(''Code'', ''bm''), (''Layer'', ''BenchMarks'')])],
      [(Some ''kb'', [(''Code'', ''kb''), (''Layer'', ''Kerb'')])],
      [(Some ''bm'', Some ''BenchMarks''), (Some ''kb'', Some ''Kerb'')])"
    by code_simp
  have l: "first_declaration (declarations library_line_first) (\<lambda>k. True) (Some ''ab'')
       = Some [(''Code'', ''ab''), (''Layer'', ''L'')]"
    by code_simp
  have b: "first_declaration (declarations library_both) (\<lambda>k. True) (Some ''ab'')
       = Some [(''Code'', ''ab''), (''Layer'', ''P'')]"
    by code_simp
  have gl: "get_codes library_line_first =
      (fst (get_codes library_line_first), fst (snd (get_codes library_line_first)),
       snd (snd (get_codes library_line_first)))" by simp
  have gb: "get_codes library_both =
      (fst (get_codes library_both), fst (snd (get_codes library_both)),
       snd (snd (get_codes library_both)))" by simp
  from get_codes_layer_map [OF gl, of "Some ''ab''"] l
  have ml: "map_of (snd (snd (get_codes library_line_first))) (Some ''ab'') = Some (Some ''L'')"
    by simp
  from get_codes_layer_map [OF gb, of "Some ''ab''"] b
  have mb: "map_of (snd (snd (get_codes library_both))) (Some ''ab'') = Some (Some ''P'')"
    by simp
  have n1: "map_of [(Some ''kb'', [(''Code'', ''kb''), (''Layer'', ''Kerb'')])] (Some ''bm'') = None"
    by simp
  have n2: "map_of [(Some ''bm'', [(''Code'', ''bm''), (''Layer'', ''BenchMarks'')])] (Some ''kb'') = None"
    by simp
  from get_codes_layer_map [OF g, of "Some ''bm''"] n1
  have e1: "map_of [(Some ''bm'', Some ''BenchMarks''), (Some ''kb'', Some ''Kerb'')] (Some ''bm'')
       = declared_layer [(Some ''bm'', [(''Code'', ''bm''), (''Layer'', ''BenchMarks'')])] (Some ''bm'')"
    by blast
  from get_codes_layer_map [OF g, of "Some ''kb''"] n2
  have e2: "map_of [(Some ''bm'', Some ''BenchMarks''), (Some ''kb'', Some ''Kerb'')] (Some ''kb'')
       = declared_layer [(Some ''kb'', [(''Code'', ''kb''), (''Layer'', ''Kerb'')])] (Some ''kb'')"
    by blast
  from g n1 e1 n2 e2 l ml b mb show ?thesis by blast
qed

subsection \<open>Drawing\<close>

lemma no_save_call: "name \<noteq> ''saveas'' \<Longrightarrow> no_save (call ok name args)"
  by (simp add: no_save_def call_def)

lemma no_save_raise: "no_save (raise e)"
  by (simp add: no_save_def raise_def)

lemma no_save_skip: "no_save skip"
  by (simp add: no_save_def skip_def)

lemma no_save_then_do:
  assumes "no_save a" and "no_save b"
  shows "no_save (then_do a b)"
  unfolding no_save_def
proof
  fix t
  from assms(1) obtain n1 where a: "fst (a t) = t @ n1" "''saveas'' \<notin> fst ` set n1"
    unfolding no_save_def by blast
  obtain t1 r where at: "a t = (t1, r)" by (cases "a t")
  show "\<exists>new. fst (then_do a b t) = t @ new \<and> ''saveas'' \<notin> fst ` set new"
  proof (cases r)
    case (Some e)
    with at a show ?thesis by (auto simp: then_do_def)
  next
    case None
    from assms(2) obtain n2 where b: "fst (b t1) = t1 @ n2" "''saveas'' \<notin> fst ` set n2"
      unfolding no_save_def by blast
    from at a have t1: "t1 = t @ n1" by simp
    have "fst (then_do a b t) = t @ (n1 @ n2)" using at None b t1 by (simp add: then_do_def)
    moreover have "''saveas'' \<notin> fst ` set (n1 @ n2)" using a b by auto
    ultimately show ?thesis by blast
  qed
qed

lemma no_save_seq: "(\<And>a. a \<in> set as \<Longrightarrow> no_save a) \<Longrightarrow> no_save (seq as)"
  by (induction as) (simp_all add: no_save_skip no_save_then_do)

lemma no_save_float3: "no_save (float3 is_float point)"
  by (simp add: float3_def no_save_skip no_save_raise)

lemma no_save_attrib_mtext: "no_save (attrib_mtext ok kv)"
  by (simp add: attrib_mtext_def no_save_call no_save_raise split: list.splits)

lemma no_save_add_attrib_text: "no_save (add_attrib_text ok is_float point point_code layer_name)"
  unfolding add_attrib_text_def
  by (rule no_save_seq)
     (auto simp: no_save_float3 no_save_call no_save_skip no_save_attrib_mtext
           intro!: no_save_seq split: option.splits)

lemma no_save_create_blocks: "no_save (create_blocks ok needed_pcodes)"
  unfolding create_blocks_def
  by (rule no_save_seq) (auto simp: no_save_call no_save_skip split: option.splits)

lemma no_save_layer_loop: "no_save (layer_loop ok layers needed_layers layer_color)"
  by (induction needed_layers arbitrary: layer_color)
     (auto simp: no_save_skip no_save_raise no_save_call Let_def
           intro!: no_save_then_do split: option.splits sum.splits)

lemma no_save_dxf_setup: "no_save (dxf_setup ok needed_pcodes layers needed_layers)"
  unfolding dxf_setup_def
  by (rule no_save_seq) (auto simp: no_save_call no_save_create_blocks no_save_layer_loop)

lemma no_save_polyline_group: "no_save (polyline_group ok is_float line_codes_dict entry)"
  unfolding polyline_group_def
  by (auto simp: no_save_raise no_save_call no_save_add_attrib_text no_save_float3
           intro!: no_save_seq no_save_then_do split: option.splits prod.splits)


lemma then_do_error: "a t = (t1, Some e) \<Longrightarrow> then_do a b t = (t1, Some e)"
  by (simp add: then_do_def)

lemma then_do_ok: "a t = (t1, None) \<Longrightarrow> then_do a b t = b t1"
  by (simp add: then_do_def)

lemma no_saveD:
  assumes "no_save a" and "a t = (t1, r)"
  shows "\<exists>new. t1 = t @ new \<and> ''saveas'' \<notin> fst ` set new"
  using assms unfolding no_save_def by (metis fst_conv)

lemma process_code_Unknown:
  assumes "process_code s lc pc = Inr (success, pcode, sq, Unknown)"
  shows "pcode = ''sprl''"
  using assms
  by (auto simp: process_code_def Let_def split: option.splits prod.splits if_splits sum.splits)

lemma keys_bucket_append:
  "fst ` set (bucket_append d code sq row) = insert code (fst ` set d)"
proof -
  have "dom (map_of (bucket_append d code sq row)) = insert code (dom (map_of d))"
  proof (rule set_eqI)
    fix c
    show "c \<in> dom (map_of (bucket_append d code sq row)) \<longleftrightarrow> c \<in> insert code (dom (map_of d))"
      by (cases "c = code") (auto simp: bucket_append_same bucket_append_other dom_def)
  qed
  then show ?thesis by (simp add: dom_map_of_conv_image_fst)
qed

lemma survey_row_Unknown_keys:
  assumes "fst ` set (m Unknown) \<subseteq> {''sprl''}"
    and "survey_row pc lc row (m, needed) = Inr (m1, needed1)"
  shows "fst ` set (m1 Unknown) \<subseteq> {''sprl''}"
proof (cases "has_point_code row")
  case False
  with assms show ?thesis by (simp add: survey_row_def)
next
  case True
  show ?thesis
  proof (cases "process_code (row ! 4) lc pc")
    case (Inl e)
    with assms(2) True show ?thesis by (simp add: survey_row_def)
  next
    case (Inr r)
    obtain success pcode sq pt where r: "r = (success, pcode, sq, pt)" by (cases r)
    from assms(2) True Inr r have m1: "m1 = m (pt :=
        bucket_append (m pt) pcode sq (row_entry row pcode sq))"
      by (simp add: survey_row_def)
    show ?thesis
    proof (cases "pt = Unknown")
      case False
      with assms(1) show ?thesis by (simp add: m1)
    next
      case u: True
      with Inr r have "pcode = ''sprl''" using process_code_Unknown by blast
      with u assms(1) show ?thesis by (simp add: m1 keys_bucket_append)
    qed
  qed
qed

lemma try_fold_survey_row_Unknown_keys:
  assumes "fst ` set (fst st Unknown) \<subseteq> {''sprl''}"
    and "try_fold (survey_row pc lc) rows st = Inr st1"
  shows "fst ` set (fst st1 Unknown) \<subseteq> {''sprl''}"
  using assms
proof (induction rows arbitrary: st)
  case Nil
  then show ?case by simp
next
  case (Cons row rows)
  obtain m needed where st: "st = (m, needed)" by (cases st)
  show ?case
  proof (cases "survey_row pc lc row st")
    case (Inl e)
    with Cons.prems(2) show ?thesis by simp
  next
    case (Inr st2)
    obtain m2 needed2 where st2: "st2 = (m2, needed2)" by (cases st2)
    from Inr st st2 have step: "survey_row pc lc row (m, needed) = Inr (m2, needed2)" by simp
    from Cons.prems(1) st have "fst ` set (m Unknown) \<subseteq> {''sprl''}" by simp
    from survey_row_Unknown_keys [OF this step]
    have k: "fst ` set (fst st2 Unknown) \<subseteq> {''sprl''}" by (simp add: st2)
    from Cons.prems(2) Inr have "try_fold (survey_row pc lc) rows st2 = Inr st1" by simp
    from Cons.IH [OF k this] show ?thesis .
  qed
qed

lemma get_survey_Unknown_keys:
  assumes "get_survey (Rows rows) pc lc needed0 = Inr (Some survey, needed)"
  shows "fst ` set (survey Unknown) \<subseteq> {''sprl''}"
proof (cases "try_fold (survey_row pc lc) rows (\<lambda>_. [], needed0)")
  case (Inl e)
  with assms show ?thesis by (simp add: get_survey_def)
next
  case (Inr st1)
  obtain m1 n1 where st1: "st1 = (m1, n1)" by (cases st1)
  from assms Inr st1 have "survey = m1" by (simp add: get_survey_def)
  moreover have "fst ` set (fst st1 Unknown) \<subseteq> {''sprl''}"
    by (rule try_fold_survey_row_Unknown_keys [OF _ Inr]) simp
  ultimately show ?thesis by (simp add: st1)
qed

lemma polyline_groups_missing_key:
  assumes "map_of line_codes_dict (Some code) = None"
  shows "seq (map (polyline_group ok is_float line_codes_dict) ((code, seqs) # rest)) t
           = (t, Some KeyError)"
  using assms by (simp add: polyline_group_def then_do_def raise_def)

text \<open>
  C10, as stated, fails: the index of \<open>rows_blank_height\<close> has a row in the Unknown bucket,
  the example library has no line code \<open>sprl\<close>, and \<open>set_dxf_view\<close> passes; but the line row
  has no height, so the first \<open>float\<close> of the Line loop raises \<open>ValueError\<close> and \<open>create_dxf\<close>
  ends with it, not with \<open>KeyError\<close>, before it reaches the Unknown loop.
\<close>

theorem create_dxf_blank_height_counterexample:
  "index_of rows_blank_height Unknown \<noteq> []
   \<and> map_of (fst (snd (get_codes example_library))) (Some ''sprl'') = None
   \<and> snd (set_dxf_view (\<lambda>t c. True) (\<lambda>s. True) (Some (index_of rows_blank_height)) []) = None
   \<and> snd (create_dxf (\<lambda>t c. True) (\<lambda>s. True) [''kb'', ''sprl''] ''Output6.dxf'' []
             (Some (index_of rows_blank_height)) (fst (get_codes example_library))
             (fst (snd (get_codes example_library))) [''Points'', ''Kerb'', ''Spare''] [])
       = Some ValueError"
  by code_simp

text \<open>
  C10, amended. For an index built by \<open>get_survey\<close> with a non-empty Unknown bucket, and a
  line-code table without the key \<open>sprl\<close> (the code the classifier returns for every miss):
  the loop over the Unknown bucket raises \<open>KeyError\<close> at its first lookup, before any call
  is made for the group; \<open>create_dxf\<close> therefore always ends in an exception without
  reaching \<open>doc.saveas\<close>, whatever the drawing library and \<open>float\<close> accept, so no file is
  written; and the exception is this \<open>KeyError\<close> whenever the statements before the loop
  (the setup, the layers and the Line loop) raise nothing, and otherwise the exception that
  they raise.
\<close>

theorem create_dxf_unknown_key_error:
  assumes "get_survey (Rows rows) point_codes line_codes needed0 = Inr (Some survey, needed_pcodes)"
    and "survey Unknown \<noteq> []"
    and "map_of line_codes_dict (Some ''sprl'') = None"
  shows "seq (map (polyline_group ok is_float line_codes_dict) (survey Unknown)) t
           = (t, Some KeyError)
    \<and> (\<exists>new e. create_dxf ok is_float needed_pcodes out layers (Some survey) point_codes_dict
                   line_codes_dict needed_layers t = (t @ new, Some e)
                 \<and> ''saveas'' \<notin> fst ` set new)
    \<and> (\<forall>t1. then_do (dxf_setup ok needed_pcodes layers needed_layers)
               (seq (map (polyline_group ok is_float line_codes_dict) (survey Line))) t
                 = (t1, None)
             \<longrightarrow> create_dxf ok is_float needed_pcodes out layers (Some survey) point_codes_dict
                   line_codes_dict needed_layers t = (t1, Some KeyError))
    \<and> (\<forall>t1 e. then_do (dxf_setup ok needed_pcodes layers needed_layers)
               (seq (map (polyline_group ok is_float line_codes_dict) (survey Line))) t
                 = (t1, Some e)
             \<longrightarrow> create_dxf ok is_float needed_pcodes out layers (Some survey) point_codes_dict
                   line_codes_dict needed_layers t = (t1, Some e))"
proof -
  let ?L = "seq (map (polyline_group ok is_float line_codes_dict) (survey Line))"
  let ?U = "seq (map (polyline_group ok is_float line_codes_dict) (survey Unknown))"
  let ?P = "seq (map (point_group ok is_float point_codes_dict) (survey Point))"
  let ?pre = "then_do (dxf_setup ok needed_pcodes layers needed_layers) ?L"
  from assms(2) obtain code seqs rest where u: "survey Unknown = (code, seqs) # rest"
    by (cases "survey Unknown") auto
  with get_survey_Unknown_keys [OF assms(1)] have "code = ''sprl''" by simp
  with assms(3) have "map_of line_codes_dict (Some code) = None" by simp
  from polyline_groups_missing_key [OF this, of ok is_float seqs rest]
  have U: "?U t' = (t', Some KeyError)" for t'
    unfolding u .
  have c: "create_dxf ok is_float needed_pcodes out layers (Some survey) point_codes_dict
             line_codes_dict needed_layers
           = then_do ?pre (then_do ?U (then_do ?P (then_do (call ok ''saveas'' [out]) skip)))"
    by (auto simp: create_dxf_def fun_eq_iff then_do_def split: prod.splits option.splits)
  have ns: "no_save ?pre"
    by (intro no_save_then_do no_save_seq no_save_dxf_setup) (auto simp: no_save_polyline_group)
  obtain t1 r where pre: "?pre t = (t1, r)" by (cases "?pre t")
  from no_saveD [OF ns pre] obtain new where new: "t1 = t @ new" "''saveas'' \<notin> fst ` set new"
    by blast
  have res: "create_dxf ok is_float needed_pcodes out layers (Some survey) point_codes_dict
             line_codes_dict needed_layers t
           = (t1, Some (case r of None \<Rightarrow> KeyError | Some e \<Rightarrow> e))"
  proof (cases r)
    case None
    with pre U show ?thesis by (simp add: c then_do_ok then_do_error)
  next
    case (Some e)
    with pre show ?thesis by (simp add: c then_do_error)
  qed
  have two: "\<exists>new e. create_dxf ok is_float needed_pcodes out layers (Some survey) point_codes_dict
                   line_codes_dict needed_layers t = (t @ new, Some e)
                 \<and> ''saveas'' \<notin> fst ` set new"
    using res new by blast
  have three: "\<forall>t2. ?pre t = (t2, None)
             \<longrightarrow> create_dxf ok is_float needed_pcodes out layers (Some survey) point_codes_dict
                   line_codes_dict needed_layers t = (t2, Some KeyError)"
    using res pre by auto
  have four: "\<forall>t2 e. ?pre t = (t2, Some e)
             \<longrightarrow> create_dxf ok is_float needed_pcodes out layers (Some survey) point_codes_dict
                   line_codes_dict needed_layers t = (t2, Some e)"
    using res pre by auto
  from U two three four show ?thesis by blast
qed

theorem create_dxf_unknown_key_error_witness:
  "get_survey (Rows example_rows) [Some ''bm''] [Some ''kb''] []
     = Inr (Some example_survey, [''kb'', ''sprl'', ''bm''])
   \<and> example_survey Unknown \<noteq> []
   \<and> map_of (fst (snd (get_codes example_library))) (Some ''sprl'') = None
   \<and> seq (map (polyline_group (\<lambda>t c. True) (\<lambda>s. True) (fst (snd (get_codes example_library))))
             (example_survey Unknown)) [] = ([], Some KeyError)
   \<and> snd (create_dxf (\<lambda>t c. True) (\<lambda>s. True) [''kb'', ''sprl'', ''bm''] ''Output6.dxf'' []
             (Some example_survey) (fst (get_codes example_library))
             (fst (snd (get_codes example_library))) [''Points'', ''Kerb'', ''Spare''] [])
       = Some KeyError"
proof -
  have c: "snd (create_dxf (\<lambda>t c. True) (\<lambda>s. True) [''kb'', ''sprl'', ''bm''] ''Output6.dxf'' []
             (Some example_survey) (fst (get_codes example_library))
             (fst (snd (get_codes example_library))) [''Points'', ''Kerb'', ''Spare''] [])
       = Some KeyError"
    by code_simp
  have n: "map_sum id snd (get_survey (Rows example_rows) [Some ''bm''] [Some ''kb''] [])
             = Inr [''kb'', ''sprl'', ''bm'']"
    by code_simp
  have g: "get_survey (Rows example_rows) [Some ''bm''] [Some ''kb''] []
     = Inr (Some example_survey, [''kb'', ''sprl'', ''bm''])"
  proof (cases "get_survey (Rows example_rows) [Some ''bm''] [Some ''kb''] []")
    case (Inl e)
    with n show ?thesis by simp
  next
    case (Inr r)
    obtain mo needed where r: "r = (mo, needed)" by (cases r)
    from Inr r have "mo \<noteq> None"
      by (auto simp: get_survey_def split: sum.splits prod.splits)
    then obtain m where mo: "mo = Some m" by auto
    from Inr r mo have "example_survey = m" by (simp add: example_survey_def index_of_def)
    moreover from n Inr r have "needed = [''kb'', ''sprl'', ''bm'']" by simp
    ultimately show ?thesis using Inr r mo by simp
  qed
  have u: "example_survey Unknown \<noteq> []" by code_simp
  have k: "map_of (fst (snd (get_codes example_library))) (Some ''sprl'') = None" by code_simp
  from create_dxf_unknown_key_error [OF g u k, of "\<lambda>t c. True" "\<lambda>s. True" "[]"] g u k c
  show ?thesis by simp
qed

text \<open>
  C2. What the script does when the survey file is missing or unreadable: \<open>get_survey\<close>
  returns \<open>None\<close>, and the script passes it on to \<open>set_dxf_view\<close>, whose first subscript
  raises \<open>TypeError\<close>. No file is written, but the next stage is invoked and the run ends
  with an uncaught exception, not cleanly.
\<close>

theorem main_missing_survey_type_error:
  assumes "get_layers root = Inr layers"
    and "file = FileNotFoundError \<or> file = PermissionError"
  shows "get_survey file point_codes line_codes needed = Inr (None, needed)
    \<and> set_dxf_view ok is_float None t = (t, Some TypeError)
    \<and> main ok is_float iter root file output_dxf_path = ([], Some TypeError)"
  using assms
  by (auto simp: main_def get_survey_def set_dxf_view_def then_do_def raise_def
      split: prod.splits)

theorem main_missing_survey_type_error_witness:
  "get_layers example_library =
     Inr [(Some ''Kerb'', [(''Color'', Some ''FFFF0000'')]),
          (Some ''BenchMarks'', [(''Color'', Some ''FF0000FF'')])]
   \<and> main (\<lambda>t c. True) (\<lambda>s. True) (\<lambda>S. []) example_library FileNotFoundError ''Output6.dxf''
       = ([], Some TypeError)"
proof -
  have l: "get_layers example_library =
     Inr [(Some ''Kerb'', [(''Color'', Some ''FFFF0000'')]),
          (Some ''BenchMarks'', [(''Color'', Some ''FF0000FF'')])]"
    by code_simp
  have f: "FileNotFoundError = FileNotFoundError \<or> FileNotFoundError = PermissionError" by simp
  from main_missing_survey_type_error [OF l f] l show ?thesis by simp
qed

end
